theory Spec2Isabelle
  imports Complex_Main "HOL-Library.Sublist" "HOL-Library.AList"
begin

section \<open>Tax calculation engine (tax-form-mapping: calculateTaxReturn)\<close>

text \<open>
  JavaScript numbers are modelled as exact rationals: the arithmetic of the calculation
  engine is addition, subtraction, comparison and multiplication by the decimal rate
  constants, all read with their mathematical meaning. Rounding to binary floating point,
  NaN and the infinities are outside the model.
\<close>

datatype FilingStatus = SINGLE | MARRIED_FILING_JOINTLY | MARRIED_FILING_SEPARATELY | HEAD_OF_HOUSEHOLD

record TaxReturnResult =
  totalIncome :: rat
  adjustedGrossIncome :: rat
  standardDeduction :: rat
  taxableIncome :: rat
  taxLiability :: rat
  totalCredits :: rat
  refundAmount :: rat
  amountOwed :: rat

text \<open>The constant table \<^verbatim>\<open>standardDeductions\<close> (2024 figures).\<close>

fun standardDeductions :: "FilingStatus \<Rightarrow> rat" where
  "standardDeductions SINGLE = 14600"
| "standardDeductions MARRIED_FILING_JOINTLY = 29200"
| "standardDeductions MARRIED_FILING_SEPARATELY = 14600"
| "standardDeductions HEAD_OF_HOUSEHOLD = 21900"

text \<open>
  The bracket chain of \<^verbatim>\<open>calculateTaxReturn\<close>: \<^verbatim>\<open>let tax = 0\<close>, overwritten only
  inside \<^verbatim>\<open>if (filingStatus === 'SINGLE')\<close>.
\<close>

definition bracketTax :: "FilingStatus \<Rightarrow> rat \<Rightarrow> rat" where
  "bracketTax filingStatus ti =
     (if filingStatus = SINGLE then
        (if ti \<le> 11600 then ti * (10 / 100)
         else if ti \<le> 47150 then 1160 + (ti - 11600) * (12 / 100)
         else if ti \<le> 100525 then 5426 + (ti - 47150) * (22 / 100)
         else if ti \<le> 191950 then 34337 / 2 + (ti - 100525) * (24 / 100)
         else if ti \<le> 243725 then 78221 / 2 + (ti - 191950) * (32 / 100)
         else if ti \<le> 609350 then 111357 / 2 + (ti - 243725) * (35 / 100)
         else 734589 / 4 + (ti - 609350) * (37 / 100))
      else 0)"

text \<open>
  \<^verbatim>\<open>calculateTaxReturn(totalIncome, totalWithheldTax, filingStatus = 'SINGLE')\<close>.
  The function has three parameters, no \<^verbatim>\<open>throw\<close> and no early return: it is total.
  The decimals of the source are written as fractions: 17168.50 = 34337/2,
  39110.50 = 78221/2, 55678.50 = 111357/2, 183647.25 = 734589/4.
\<close>

definition calculateTaxReturn :: "rat \<Rightarrow> rat \<Rightarrow> FilingStatus \<Rightarrow> TaxReturnResult" where
  "calculateTaxReturn totalIncome' totalWithheldTax filingStatus =
     (let adjustedGrossIncome' = totalIncome';
          standardDeduction' = standardDeductions filingStatus;
          taxableIncome' = max 0 (adjustedGrossIncome' - standardDeduction');
          tax = bracketTax filingStatus taxableIncome';
          totalPayments = totalWithheldTax;
          refundAmount' = (if totalPayments > tax then totalPayments - tax else 0);
          amountOwed' = (if totalPayments > tax then 0
                         else if tax > totalPayments then tax - totalPayments else 0)
      in \<lparr> totalIncome = adjustedGrossIncome',
           adjustedGrossIncome = adjustedGrossIncome',
           standardDeduction = standardDeduction',
           taxableIncome = taxableIncome',
           taxLiability = tax,
           totalCredits = 0,
           refundAmount = refundAmount',
           amountOwed = amountOwed' \<rparr>)"

text \<open>The call with the third argument omitted takes the default \<^verbatim>\<open>'SINGLE'\<close>.\<close>

definition calculateTaxReturn_default :: "rat \<Rightarrow> rat \<Rightarrow> TaxReturnResult" where
  "calculateTaxReturn_default totalIncome' totalWithheldTax =
     calculateTaxReturn totalIncome' totalWithheldTax SINGLE"

subsection \<open>The 2024 schedule for single filers, as the specification tabulates it\<close>

text \<open>
  One row per bracket: lower bound, upper bound (\<open>None\<close> for the open last bracket),
  marginal rate and tax at the lower bound. \<open>scheduleTax\<close> takes the first row whose
  upper bound is not below the taxable income and applies
  \<open>base + (taxableIncome - lowerBound) * rate\<close>.
\<close>

record Bracket =
  lowerBound :: rat
  upperBound :: "rat option"
  marginalRate :: rat
  baseAtLowerBound :: rat

definition singleSchedule2024 :: "Bracket list" where
  "singleSchedule2024 =
     [\<lparr>lowerBound = 0, upperBound = Some 11600, marginalRate = 10 / 100, baseAtLowerBound = 0\<rparr>,
      \<lparr>lowerBound = 11600, upperBound = Some 47150, marginalRate = 12 / 100, baseAtLowerBound = 1160\<rparr>,
      \<lparr>lowerBound = 47150, upperBound = Some 100525, marginalRate = 22 / 100, baseAtLowerBound = 5426\<rparr>,
      \<lparr>lowerBound = 100525, upperBound = Some 191950, marginalRate = 24 / 100, baseAtLowerBound = 34337 / 2\<rparr>,
      \<lparr>lowerBound = 191950, upperBound = Some 243725, marginalRate = 32 / 100, baseAtLowerBound = 78221 / 2\<rparr>,
      \<lparr>lowerBound = 243725, upperBound = Some 609350, marginalRate = 35 / 100, baseAtLowerBound = 111357 / 2\<rparr>,
      \<lparr>lowerBound = 609350, upperBound = None, marginalRate = 37 / 100, baseAtLowerBound = 734589 / 4\<rparr>]"

fun containsIncome :: "rat \<Rightarrow> Bracket \<Rightarrow> bool" where
  "containsIncome ti b = (case upperBound b of None \<Rightarrow> True | Some u \<Rightarrow> ti \<le> u)"

fun scheduleTax :: "Bracket list \<Rightarrow> rat \<Rightarrow> rat" where
  "scheduleTax [] ti = 0"
| "scheduleTax (b # bs) ti =
     (if containsIncome ti b then baseAtLowerBound b + (ti - lowerBound b) * marginalRate b
      else scheduleTax bs ti)"

section \<open>Recalculation after accepting entries (recalculateTaxReturn)\<close>

text \<open>
  The helper of the accept route. Its database reads are the arguments: the amounts of the
  return's income entries, the amounts of its deduction entries, and the filing status of
  the stored return (\<open>None\<close> when \<^verbatim>\<open>findUnique\<close> finds no return, where the helper
  returns early without an update). The result is the data of the update it writes.
  \<^verbatim>\<open>standardDeductions[taxReturn.filingStatus] || 14600\<close> falls back to 14600 when the
  looked-up number is falsy.
\<close>

record TaxReturnUpdate =
  upd_totalIncome :: rat
  upd_adjustedGrossIncome :: rat
  upd_standardDeduction :: rat
  upd_itemizedDeduction :: rat
  upd_taxableIncome :: rat
  upd_taxLiability :: rat
  upd_refundAmount :: rat
  upd_amountOwed :: rat

definition recalculateTaxReturn :: "rat list \<Rightarrow> rat list \<Rightarrow> FilingStatus option \<Rightarrow> TaxReturnUpdate option" where
  "recalculateTaxReturn incomeAmounts deductionAmounts taxReturn =
     (let totalIncome' = foldl (\<lambda>sum amount. sum + amount) 0 incomeAmounts;
          totalDeductions = foldl (\<lambda>sum amount. sum + amount) 0 deductionAmounts
      in case taxReturn of
           None \<Rightarrow> None
         | Some filingStatus \<Rightarrow>
             (let adjustedGrossIncome' = totalIncome';
                  standardDeduction' =
                    (if standardDeductions filingStatus \<noteq> 0 then standardDeductions filingStatus
                     else 14600);
                  itemizedDeduction' = totalDeductions;
                  deduction = max standardDeduction' itemizedDeduction';
                  taxableIncome' = max 0 (adjustedGrossIncome' - deduction);
                  taxLiability' = bracketTax filingStatus taxableIncome';
                  refundAmount' = (if taxLiability' \<le> 0 then \<bar>taxLiability'\<bar> else 0);
                  amountOwed' = (if taxLiability' > 0 then taxLiability' else 0)
              in Some \<lparr> upd_totalIncome = totalIncome',
                        upd_adjustedGrossIncome = adjustedGrossIncome',
                        upd_standardDeduction = standardDeduction',
                        upd_itemizedDeduction = itemizedDeduction',
                        upd_taxableIncome = taxableIncome',
                        upd_taxLiability = taxLiability',
                        upd_refundAmount = refundAmount',
                        upd_amountOwed = amountOwed' \<rparr>))"

subsection \<open>The contract of the specification, for comparison\<close>

text \<open>
  The deduction the specification's contract applies:
  \<open>max(standardDeduction, itemizedDeduction ?? 0)\<close>, the itemized deduction optional.
\<close>

definition specDeduction :: "FilingStatus \<Rightarrow> rat option \<Rightarrow> rat" where
  "specDeduction filingStatus itemizedDeduction =
     max (standardDeductions filingStatus) (case itemizedDeduction of None \<Rightarrow> 0 | Some d \<Rightarrow> d)"

text \<open>The specification's invariant on the pair refund / owed: exactly one is non-zero.\<close>

definition exactlyOneNonZero :: "rat \<Rightarrow> rat \<Rightarrow> bool" where
  "exactlyOneNonZero a b = ((a \<noteq> 0) \<noteq> (b \<noteq> 0))"

section \<open>Text utilities of the extraction code\<close>

text \<open>
  Strings are byte lists. \<^verbatim>\<open>String.prototype.includes\<close> is the test for a contiguous
  occurrence; the keywords searched for are ASCII.
\<close>

fun includesStr :: "string \<Rightarrow> string \<Rightarrow> bool" where
  "includesStr [] k = (k = [])"
| "includesStr (c # cs) k = (prefix k (c # cs) \<or> includesStr cs k)"

definition isDigit :: "char \<Rightarrow> bool" where
  "isDigit c = (c \<in> set ''0123456789'')"

text \<open>The value of a digit character: its code minus the code of \<^verbatim>\<open>0\<close>.\<close>

definition digitVal :: "char \<Rightarrow> nat" where
  "digitVal c = of_char c - 48"

definition digitsToNat :: "string \<Rightarrow> nat" where
  "digitsToNat ds = foldl (\<lambda>a c. 10 * a + digitVal c) 0 ds"

text \<open>
  \<^verbatim>\<open>parseFloat\<close> on the strings this code passes to it: regular-expression captures made
  of digits and at most one point (commas already removed). It reads the longest prefix
  \<open>digits [. digits]\<close>; \<open>None\<close> stands for NaN (no digit to read). Signs, exponents and
  leading blanks never occur in these captures and are not modelled.
\<close>

definition parseFloat :: "string \<Rightarrow> rat option" where
  "parseFloat s =
     (let ip = takeWhile isDigit s;
          rest = dropWhile isDigit s;
          fp = (case rest of [] \<Rightarrow> [] | c # r \<Rightarrow> if c = CHR ''.'' then takeWhile isDigit r else [])
      in if ip = [] \<and> fp = [] then None
         else Some (of_nat (digitsToNat ip) + of_nat (digitsToNat fp) / 10 ^ length fp))"

text \<open>\<^verbatim>\<open>parseInt\<close> on a capture: the leading digits, NaN (\<open>None\<close>) when there is none.\<close>

definition parseInt :: "string \<Rightarrow> int option" where
  "parseInt s =
     (let ip = takeWhile isDigit s in if ip = [] then None else Some (int (digitsToNat ip)))"

text \<open>\<^verbatim>\<open>s.replace(/,/g, '')\<close>.\<close>

definition removeCommas :: "string \<Rightarrow> string" where
  "removeCommas s = filter (\<lambda>c. c \<noteq> CHR '','') s"

text \<open>\<^verbatim>\<open>s.trim()\<close>, over the ASCII blanks (space, tab, line feed, vertical tab, form feed, carriage return).\<close>

definition isSpace :: "char \<Rightarrow> bool" where
  "isSpace c = (c \<in> {CHR '' '', CHR 0x09, CHR 0x0A, CHR 0x0B, CHR 0x0C, CHR 0x0D})"

definition trim :: "string \<Rightarrow> string" where
  "trim s = rev (dropWhile isSpace (rev (dropWhile isSpace s)))"

section \<open>OCR parsers and form classification (tax-form-ocr)\<close>

text \<open>The interface \<^verbatim>\<open>ExtractedTaxData\<close>; \<^verbatim>\<open>amounts\<close> is an object with string keys.\<close>

text \<open>
  An object with number values is an association list in the order \<^verbatim>\<open>Object.entries\<close>
  enumerates it; a property read is \<open>map_of\<close>, a property write \<open>AList.update\<close>. A key
  holding NaN is left out: every reader in the mapper (truthiness, \<^verbatim>\<open>> 0\<close>) treats NaN
  as it treats a missing key.
\<close>

record ExtractedTaxData =
  formType :: string
  taxYear :: "int option"
  payerName :: "string option"
  payerTIN :: "string option"
  recipientName :: "string option"
  recipientTIN :: "string option"
  amounts :: "(string \<times> rat) list"
  rawText :: "string option"

text \<open>
  The regular expressions of the parsers are matched by the JavaScript engine, which is
  taken as a parameter: \<open>rx p text\<close> is the entry of \<^verbatim>\<open>text.match(p)\<close> that the parser
  reads (the whole match for the year, the first group for the others), \<open>None\<close> when
  \<^verbatim>\<open>match\<close> returns null. \<open>AmountAfter label\<close> is
  \<^verbatim>\<open>/label[\s\$]*([\d,]+\.?\d*)/i\<close>.
\<close>

datatype pattern =
    YearPattern
  | PayerNamePattern
  | PayerTINPattern
  | RecipientNamePattern
  | AmountAfter string

type_synonym regexEngine = "pattern \<Rightarrow> string \<Rightarrow> string option"

definition emptyForm :: "string \<Rightarrow> string \<Rightarrow> ExtractedTaxData" where
  "emptyForm ft text =
     \<lparr> formType = ft, taxYear = None, payerName = None, payerTIN = None,
       recipientName = None, recipientTIN = None, amounts = [], rawText = Some text \<rparr>"

text \<open>\<^verbatim>\<open>if (yearMatch) data.taxYear = parseInt(yearMatch[0])\<close>.\<close>

definition setTaxYear :: "regexEngine \<Rightarrow> string \<Rightarrow> ExtractedTaxData \<Rightarrow> ExtractedTaxData" where
  "setTaxYear rx text data =
     (case rx YearPattern text of None \<Rightarrow> data | Some y \<Rightarrow> data\<lparr>taxYear := parseInt y\<rparr>)"

definition setPayerName :: "regexEngine \<Rightarrow> string \<Rightarrow> ExtractedTaxData \<Rightarrow> ExtractedTaxData" where
  "setPayerName rx text data =
     (case rx PayerNamePattern text of None \<Rightarrow> data | Some n \<Rightarrow> data\<lparr>payerName := Some (trim n)\<rparr>)"

definition setPayerTIN :: "regexEngine \<Rightarrow> string \<Rightarrow> ExtractedTaxData \<Rightarrow> ExtractedTaxData" where
  "setPayerTIN rx text data =
     (case rx PayerTINPattern text of None \<Rightarrow> data | Some t \<Rightarrow> data\<lparr>payerTIN := Some t\<rparr>)"

definition setRecipientName :: "regexEngine \<Rightarrow> string \<Rightarrow> ExtractedTaxData \<Rightarrow> ExtractedTaxData" where
  "setRecipientName rx text data =
     (case rx RecipientNamePattern text of None \<Rightarrow> data
      | Some n \<Rightarrow> data\<lparr>recipientName := Some (trim n)\<rparr>)"

text \<open>\<^verbatim>\<open>if (m) data.amounts.key = parseFloat(m[1].replace(/,/g, ''))\<close>.\<close>

definition setAmount :: "regexEngine \<Rightarrow> string \<Rightarrow> string \<Rightarrow> string \<Rightarrow> ExtractedTaxData \<Rightarrow> ExtractedTaxData" where
  "setAmount rx label key text data =
     (case rx (AmountAfter label) text of
        None \<Rightarrow> data
      | Some m \<Rightarrow>
          (case parseFloat (removeCommas m) of
             None \<Rightarrow> data
           | Some v \<Rightarrow> data\<lparr>amounts := AList.update key v (amounts data)\<rparr>))"

definition parse1099NEC :: "regexEngine \<Rightarrow> string \<Rightarrow> ExtractedTaxData" where
  "parse1099NEC rx text =
     (setAmount rx ''Federal income tax withheld'' ''federalIncomeTaxWithheld'' text
       (setAmount rx ''Nonemployee compensation'' ''nonemployeeCompensation'' text
         (setRecipientName rx text
           (setPayerTIN rx text
             (setPayerName rx text
               (setTaxYear rx text (emptyForm ''FORM_1099_NEC'' text)))))))"

definition parse1099INT :: "regexEngine \<Rightarrow> string \<Rightarrow> ExtractedTaxData" where
  "parse1099INT rx text =
     (setAmount rx ''Federal income tax withheld'' ''federalIncomeTaxWithheld'' text
       (setAmount rx ''Interest income'' ''interestIncome'' text
         (setPayerTIN rx text
           (setPayerName rx text
             (setTaxYear rx text (emptyForm ''FORM_1099_INT'' text))))))"

definition parse1099DIV :: "regexEngine \<Rightarrow> string \<Rightarrow> ExtractedTaxData" where
  "parse1099DIV rx text =
     (setAmount rx ''Federal income tax withheld'' ''federalIncomeTaxWithheld'' text
       (setAmount rx ''Qualified dividends'' ''qualifiedDividends'' text
         (setAmount rx ''(?:Total )?ordinary dividends'' ''ordinaryDividends'' text
           (setPayerTIN rx text
             (setPayerName rx text
               (setTaxYear rx text (emptyForm ''FORM_1099_DIV'' text)))))))"

definition parse1099MISC :: "regexEngine \<Rightarrow> string \<Rightarrow> ExtractedTaxData" where
  "parse1099MISC rx text =
     (setAmount rx ''Federal income tax withheld'' ''federalIncomeTaxWithheld'' text
       (setAmount rx ''Rents'' ''rents'' text
         (setAmount rx ''Miscellaneous income'' ''miscellaneousIncome'' text
           (setTaxYear rx text (emptyForm ''FORM_1099_MISC'' text)))))"

definition parse1099R :: "regexEngine \<Rightarrow> string \<Rightarrow> ExtractedTaxData" where
  "parse1099R rx text =
     (setAmount rx ''Federal income tax withheld'' ''federalIncomeTaxWithheld'' text
       (setAmount rx ''Taxable amount'' ''taxableAmount'' text
         (setAmount rx ''Gross distribution'' ''grossDistribution'' text
           (setTaxYear rx text (emptyForm ''FORM_1099_R'' text)))))"

text \<open>
  Text acquisition. \<^verbatim>\<open>extractTextFromPDF\<close> and \<^verbatim>\<open>extractTextFromImage\<close> wrap the PDF
  and OCR libraries, which are parameters here (\<open>None\<close> when the library call rejects),
  and turn a failure into their own error.
\<close>

datatype error = Error string

record TextLibraries =
  pdfParse :: "string \<Rightarrow> string option"
  tesseractRecognize :: "string \<Rightarrow> string option"

definition extractTextFromPDF :: "TextLibraries \<Rightarrow> string \<Rightarrow> error + string" where
  "extractTextFromPDF libs filePath =
     (case pdfParse libs filePath of
        None \<Rightarrow> Inl (Error ''Failed to extract text from PDF'')
      | Some text \<Rightarrow> Inr text)"

definition extractTextFromImage :: "TextLibraries \<Rightarrow> string \<Rightarrow> error + string" where
  "extractTextFromImage libs filePath =
     (case tesseractRecognize libs filePath of
        None \<Rightarrow> Inl (Error ''Failed to extract text from image'')
      | Some text \<Rightarrow> Inr text)"

text \<open>The first statement of \<^verbatim>\<open>extractDataFromTaxForm\<close>: which adapter reads the file.\<close>

definition acquireText :: "TextLibraries \<Rightarrow> string \<Rightarrow> string \<Rightarrow> error + string" where
  "acquireText libs filePath fileType =
     (if fileType = ''application/pdf'' then extractTextFromPDF libs filePath
      else extractTextFromImage libs filePath)"

definition extractDataFromTaxForm ::
    "regexEngine \<Rightarrow> TextLibraries \<Rightarrow> string \<Rightarrow> string \<Rightarrow> error + ExtractedTaxData" where
  "extractDataFromTaxForm rx libs filePath fileType =
     (case acquireText libs filePath fileType of
        Inl e \<Rightarrow> Inl e
      | Inr text \<Rightarrow>
          Inr (if includesStr text ''1099-NEC'' \<or> includesStr text ''Nonemployee compensation''
               then parse1099NEC rx text
               else if includesStr text ''1099-INT'' \<or> includesStr text ''Interest income''
               then parse1099INT rx text
               else if includesStr text ''1099-DIV'' \<or> includesStr text ''dividends''
               then parse1099DIV rx text
               else if includesStr text ''1099-MISC'' \<or> includesStr text ''Miscellaneous income''
               then parse1099MISC rx text
               else if includesStr text ''1099-R'' \<or> includesStr text ''distribution''
               then parse1099R rx text
               else \<lparr> formType = ''UNKNOWN'', taxYear = None, payerName = None, payerTIN = None,
                      recipientName = None, recipientTIN = None, amounts = [],
                      rawText = Some text \<rparr>))"

subsection \<open>The classifier of the specification, for comparison\<close>

text \<open>
  The priority order NEC, INT, DIV, MISC, R as a table of keyword lists with the parser
  each selects; the first row with a keyword occurring in the text wins, and no row gives
  the form of type UNKNOWN with no amounts.
\<close>

definition classifierTable :: "regexEngine \<Rightarrow> (string list \<times> (string \<Rightarrow> ExtractedTaxData)) list" where
  "classifierTable rx =
     [([''1099-NEC'', ''Nonemployee compensation''], parse1099NEC rx),
      ([''1099-INT'', ''Interest income''], parse1099INT rx),
      ([''1099-DIV'', ''dividends''], parse1099DIV rx),
      ([''1099-MISC'', ''Miscellaneous income''], parse1099MISC rx),
      ([''1099-R'', ''distribution''], parse1099R rx)]"

definition classifyFirstMatch :: "regexEngine \<Rightarrow> string \<Rightarrow> ExtractedTaxData" where
  "classifyFirstMatch rx text =
     (case find (\<lambda>row. list_ex (includesStr text) (fst row)) (classifierTable rx) of
        Some row \<Rightarrow> snd row text
      | None \<Rightarrow> emptyForm ''UNKNOWN'' text)"

section \<open>Line-item mapper (tax-form-mapping: mapExtractedDataToIncomeEntries)\<close>

text \<open>
  Modelled from the spec: the enum \<^verbatim>\<open>IncomeType\<close> is declared by the database schema,
  which is not among the sources; its members are the income types the specification lists.
\<close>

datatype IncomeType =
  WAGES | INTEREST | DIVIDENDS | BUSINESS_INCOME | RETIREMENT_DISTRIBUTIONS | OTHER_INCOME

record IncomeEntry =
  incomeType :: IncomeType
  description :: string
  amount :: rat
  entryPayerName :: "string option"
  entryPayerTIN :: "string option"

record TaxFormMapping =
  incomeEntries :: "IncomeEntry list"
  withheldTax :: rat
  mappingTaxYear :: int

text \<open>A property read \<^verbatim>\<open>form.amounts.key\<close>.\<close>

definition amountOf :: "ExtractedTaxData \<Rightarrow> string \<Rightarrow> rat option" where
  "amountOf form key = map_of (amounts form) key"

text \<open>The template tail \<^verbatim>\<open>${form.payerName ? ` from ${form.payerName}` : ''}\<close>.\<close>

definition fromPayer :: "ExtractedTaxData \<Rightarrow> string" where
  "fromPayer form =
     (case payerName form of None \<Rightarrow> [] | Some n \<Rightarrow> if n \<noteq> [] then '' from '' @ n else [])"

text \<open>\<^verbatim>\<open>incomeEntries.push({incomeType, description, amount, payerName, payerTIN})\<close>.\<close>

definition pushEntry :: "IncomeType \<Rightarrow> string \<Rightarrow> rat \<Rightarrow> ExtractedTaxData \<Rightarrow> TaxFormMapping \<Rightarrow> TaxFormMapping" where
  "pushEntry ty label amt form st =
     st\<lparr>incomeEntries := incomeEntries st @
           [\<lparr> incomeType = ty, description = label @ fromPayer form, amount = amt,
              entryPayerName = payerName form, entryPayerTIN = payerTIN form \<rparr>]\<rparr>"

text \<open>\<^verbatim>\<open>if (form.amounts.key && form.amounts.key > 0) incomeEntries.push(...)\<close>.\<close>

definition pushIfPositive :: "IncomeType \<Rightarrow> string \<Rightarrow> string \<Rightarrow> ExtractedTaxData \<Rightarrow> TaxFormMapping \<Rightarrow> TaxFormMapping" where
  "pushIfPositive ty label key form st =
     (case amountOf form key of
        None \<Rightarrow> st
      | Some a \<Rightarrow> if a \<noteq> 0 \<and> a > 0 then pushEntry ty label a form st else st)"

text \<open>
  \<^verbatim>\<open>if (form.amounts.federalIncomeTaxWithheld) totalWithheldTax += ...\<close>, the statement
  that closes every case of the switch.
\<close>

definition addWithheld :: "ExtractedTaxData \<Rightarrow> TaxFormMapping \<Rightarrow> TaxFormMapping" where
  "addWithheld form st =
     (case amountOf form ''federalIncomeTaxWithheld'' of
        None \<Rightarrow> st
      | Some w \<Rightarrow> if w \<noteq> 0 then st\<lparr>withheldTax := withheldTax st + w\<rparr> else st)"

text \<open>
  \<^verbatim>\<open>form.amounts.taxableAmount || form.amounts.grossDistribution || 0\<close>: the first truthy
  operand, where a missing key and the number 0 are both falsy.
\<close>

definition retirementAmount :: "ExtractedTaxData \<Rightarrow> rat" where
  "retirementAmount form =
     (case amountOf form ''taxableAmount'' of
        Some t \<Rightarrow> if t \<noteq> 0 then t
                  else (case amountOf form ''grossDistribution'' of
                          Some g \<Rightarrow> if g \<noteq> 0 then g else 0 | None \<Rightarrow> 0)
      | None \<Rightarrow> (case amountOf form ''grossDistribution'' of
                   Some g \<Rightarrow> if g \<noteq> 0 then g else 0 | None \<Rightarrow> 0))"

text \<open>The body of the default case's \<^verbatim>\<open>Object.entries(form.amounts).forEach\<close>.\<close>

definition pushUnknown :: "ExtractedTaxData \<Rightarrow> TaxFormMapping \<Rightarrow> string \<times> rat \<Rightarrow> TaxFormMapping" where
  "pushUnknown form st entry =
     (if snd entry > 0 \<and> fst entry \<noteq> ''federalIncomeTaxWithheld''
      then pushEntry OTHER_INCOME (''Unknown Form: '' @ fst entry) (snd entry) form st
      else st)"

text \<open>The callback of \<^verbatim>\<open>extractedForms.forEach\<close>, on the three local variables.\<close>

definition mapForm :: "TaxFormMapping \<Rightarrow> ExtractedTaxData \<Rightarrow> TaxFormMapping" where
  "mapForm st0 form =
     (let st = (case taxYear form of
                  None \<Rightarrow> st0
                | Some y \<Rightarrow> if y \<noteq> 0 then st0\<lparr>mappingTaxYear := y\<rparr> else st0)
      in if formType form = ''FORM_1099_NEC'' then
           addWithheld form
             (pushIfPositive BUSINESS_INCOME ''1099-NEC: Nonemployee Compensation''
                ''nonemployeeCompensation'' form st)
         else if formType form = ''FORM_1099_INT'' then
           addWithheld form
             (pushIfPositive INTEREST ''1099-INT: Interest Income'' ''interestIncome'' form st)
         else if formType form = ''FORM_1099_DIV'' then
           addWithheld form
             (pushIfPositive DIVIDENDS ''1099-DIV: Qualified Dividends'' ''qualifiedDividends'' form
               (pushIfPositive DIVIDENDS ''1099-DIV: Ordinary Dividends'' ''ordinaryDividends'' form st))
         else if formType form = ''FORM_1099_MISC'' then
           addWithheld form
             (pushIfPositive OTHER_INCOME ''1099-MISC: Miscellaneous Income'' ''miscellaneousIncome'' form
               (pushIfPositive OTHER_INCOME ''1099-MISC: Rent Income'' ''rents'' form st))
         else if formType form = ''FORM_1099_R'' then
           addWithheld form
             (if retirementAmount form > 0
              then pushEntry RETIREMENT_DISTRIBUTIONS ''1099-R: Retirement Distribution''
                     (retirementAmount form) form st
              else st)
         else
           addWithheld form (foldl (pushUnknown form) st (amounts form)))"

text \<open>
  \<^verbatim>\<open>mapExtractedDataToIncomeEntries(extractedForms)\<close>. The default tax year is
  \<^verbatim>\<open>new Date().getFullYear() - 1\<close>; the current year is a parameter.
\<close>

definition mapExtractedDataToIncomeEntries :: "int \<Rightarrow> ExtractedTaxData list \<Rightarrow> TaxFormMapping" where
  "mapExtractedDataToIncomeEntries currentYear extractedForms =
     foldl mapForm \<lparr> incomeEntries = [], withheldTax = 0, mappingTaxYear = currentYear - 1 \<rparr>
       extractedForms"

subsection \<open>The withheld total of the specification, for comparison\<close>

text \<open>The sum of the federal-tax-withheld amount over the forms that have the field.\<close>

definition hasWithheld :: "ExtractedTaxData \<Rightarrow> bool" where
  "hasWithheld form = (amountOf form ''federalIncomeTaxWithheld'' \<noteq> None)"

definition withheldSum :: "ExtractedTaxData list \<Rightarrow> rat" where
  "withheldSum forms =
     sum_list (map (\<lambda>form. the (amountOf form ''federalIncomeTaxWithheld'')) (filter hasWithheld forms))"

section \<open>Document AI processing (process route: processWithGoogleDocumentAI)\<close>

subsection \<open>Numbers as strings\<close>

text \<open>
  \<^verbatim>\<open>Number.prototype.toString\<close> belongs to the JavaScript engine and is a parameter of
  the model, written \<open>toStr\<close>: the engine prints the shortest decimal that reads back as the
  same floating-point number.
\<close>

type_synonym numberToString = "rat \<Rightarrow> string"






subsection \<open>Data\<close>

text \<open>
  A vendor entity with the properties the function reads; \<open>None\<close> is a missing
  property. \<open>normalizedValueText\<close> is \<^verbatim>\<open>entity.normalizedValue?.text\<close>.
\<close>

record Entity =
  entityType :: "string option"
  mentionText :: "string option"
  normalizedValueText :: "string option"
  entityConfidence :: "rat option"

text \<open>The \<^verbatim>\<open>document\<close> of the API result: \<^verbatim>\<open>text\<close> and \<^verbatim>\<open>entities\<close>, each possibly missing.\<close>

record DocResult =
  docText :: "string option"
  docEntities :: "Entity list option"

text \<open>The stored document row, as far as it is read.\<close>

record Document =
  documentFilePath :: string
  documentDocumentType :: string

text \<open>The interface \<^verbatim>\<open>ExtractedTaxData\<close> of the process route (the return value).\<close>

record ProcessedDocument =
  documentType :: string
  ocrText :: string
  extractedData :: "(string \<times> string) list"
  confidence :: rat
  processingMethod :: string

text \<open>
  The regular expressions of the function, matched by the JavaScript engine. The engine
  is a parameter: \<open>rx p s\<close> lists the successive matches of \<open>p\<close> in \<open>s\<close>, each as its match
  array (whole match, then the groups). \<^verbatim>\<open>s.match(p)\<close> without the global flag is the
  first of them, \<^verbatim>\<open>p.test(s)\<close> says whether there is one, \<^verbatim>\<open>matchAll\<close> gives all, and
  \<^verbatim>\<open>s.match(p)\<close> with the global flag gives the whole matches.
\<close>

datatype docPattern =
    EmployeeSectionPattern  \<comment> \<open>\<^verbatim>\<open>/Employee's first name[\s\S]{0,300}/i\<close>\<close>
  | NamePattern  \<comment> \<open>\<^verbatim>\<open>/\b([A-Z][a-z]{2,15})\s+([A-Z][a-z]{2,15})\b/g\<close>\<close>
  | ProperNameLine  \<comment> \<open>\<^verbatim>\<open>/^[A-Z][a-z]{2,15}$/\<close>\<close>
  | EmployerSectionPattern  \<comment> \<open>\<^verbatim>\<open>/Employer's name[\s\S]{0,400}/i\<close>\<close>
  | CompanyPattern  \<comment> \<open>the pattern \<^verbatim>\<open>companyPattern\<close>\<close>
  | IndicatorPattern string  \<comment> \<open>the pattern built from a business indicator\<close>
  | FormFieldWords  \<comment> \<open>\<^verbatim>\<open>/Employee|Employer|Federal|...|Sick|Pay/i\<close>\<close>
  | WagePattern1  \<comment> \<open>\<^verbatim>\<open>/Wages,\s*tips,\s*other\s*compensation\s*[^0-9]*([0-9]+\.?[0-9]*)/i\<close>\<close>
  | WageLine  \<comment> \<open>\<^verbatim>\<open>/Wages.*tips.*compensation/i\<close>\<close>
  | NumericLine  \<comment> \<open>\<^verbatim>\<open>/^[0-9]+\.?[0-9]*$/\<close>\<close>
  | AmountTokens  \<comment> \<open>\<^verbatim>\<open>/\b\d{1,3}(?:,?\d{3})*\.?\d{0,2}\b/g\<close>\<close>
  | FedTaxPattern1  \<comment> \<open>\<^verbatim>\<open>/Federal\s*income\s*tax\s*withheld\s*[^0-9]*([0-9]+\.?[0-9]*)/i\<close>\<close>
  | FedTaxLine  \<comment> \<open>\<^verbatim>\<open>/Federal.*income.*tax.*withheld/i\<close>\<close>
  | EinPattern  \<comment> \<open>\<^verbatim>\<open>/\b(\d{2}-\d{7})\b/\<close>\<close>
  | SsnPattern  \<comment> \<open>\<^verbatim>\<open>/\b(\d{3}-\d{2}-\d{4})\b/\<close>\<close>
  | SsWagesPattern  \<comment> \<open>\<^verbatim>\<open>/Social\s*security\s*wages\s*[^0-9]*([0-9]+\.?[0-9]*)/i\<close>\<close>
  | MedicareWagesPattern  \<comment> \<open>\<^verbatim>\<open>/Medicare\s*wages\s*and\s*tips\s*[^0-9]*([0-9]+\.?[0-9]*)/i\<close>\<close>
  | SsTaxPattern  \<comment> \<open>\<^verbatim>\<open>/Social\s*security\s*tax\s*withheld\s*[^0-9]*([0-9]+\.?[0-9]*)/i\<close>\<close>
  | MedicareTaxPattern  \<comment> \<open>\<^verbatim>\<open>/Medicare\s*tax\s*withheld\s*[^0-9]*([0-9]+\.?[0-9]*)/i\<close>\<close>

type_synonym docRegex = "docPattern \<Rightarrow> string \<Rightarrow> string list list"

definition firstMatch :: "docRegex \<Rightarrow> docPattern \<Rightarrow> string \<Rightarrow> string list option" where
  "firstMatch rx p s = (case rx p s of [] \<Rightarrow> None | m # _ \<Rightarrow> Some m)"

definition testRe :: "docRegex \<Rightarrow> docPattern \<Rightarrow> string \<Rightarrow> bool" where
  "testRe rx p s = (rx p s \<noteq> [])"

text \<open>An entry of a match array; a group that is missing reads as the empty (falsy) string.\<close>

definition grp :: "string list \<Rightarrow> nat \<Rightarrow> string" where
  "grp m i = (if i < length m then m ! i else [])"

definition wholeMatches :: "docRegex \<Rightarrow> docPattern \<Rightarrow> string \<Rightarrow> string list" where
  "wholeMatches rx p s = map (\<lambda>m. grp m 0) (rx p s)"

text \<open>\<^verbatim>\<open>s.split('\n')\<close>.\<close>

fun splitLines :: "string \<Rightarrow> string list" where
  "splitLines [] = [[]]"
| "splitLines (c # cs) =
     (if c = CHR 0x0A then [] # splitLines cs
      else (case splitLines cs of [] \<Rightarrow> [[c]] | l # ls \<Rightarrow> (c # l) # ls))"

text \<open>\<^verbatim>\<open>s.toLowerCase()\<close> on the ASCII letters.\<close>

definition toLowerCase :: "string \<Rightarrow> string" where
  "toLowerCase s =
     map (\<lambda>c. if 65 \<le> (of_char c :: nat) \<and> (of_char c :: nat) \<le> 90
               then char_of ((of_char c :: nat) + 32) else c) s"

text \<open>Reading a property of \<^verbatim>\<open>extractedData\<close> as a condition: present and not empty.\<close>

definition truthy :: "(string \<times> string) list \<Rightarrow> string \<Rightarrow> bool" where
  "truthy ed key = (case map_of ed key of None \<Rightarrow> False | Some v \<Rightarrow> v \<noteq> [])"

definition findIndex :: "('a \<Rightarrow> bool) \<Rightarrow> 'a list \<Rightarrow> nat option" where
  "findIndex P xs = (if list_ex P xs then Some (length (takeWhile (\<lambda>x. \<not> P x) xs)) else None)"

definition firstSome :: "('a \<Rightarrow> 'b option) \<Rightarrow> 'a list \<Rightarrow> 'b option" where
  "firstSome f xs = (case List.map_filter f xs of [] \<Rightarrow> None | y # _ \<Rightarrow> Some y)"

subsection \<open>The entity loop\<close>

definition fieldMapping :: "(string \<times> string) list" where
  "fieldMapping =
     [(''employee_name'', ''employeeName''),
      (''employee_address'', ''employeeAddress''),
      (''employee_ssn'', ''employeeSSN''),
      (''employer_name'', ''employerName''),
      (''employer_address'', ''employerAddress''),
      (''employer_ein'', ''employerEIN''),
      (''wages_tips_other_compensation'', ''wages''),
      (''federal_income_tax_withheld'', ''federalTaxWithheld''),
      (''social_security_wages'', ''socialSecurityWages''),
      (''social_security_tax_withheld'', ''socialSecurityTaxWithheld''),
      (''medicare_wages_and_tips'', ''medicareWages''),
      (''medicare_tax_withheld'', ''medicareTaxWithheld''),
      (''state_wages_tips_etc'', ''stateWages''),
      (''state_income_tax'', ''stateTaxWithheld''),
      (''amount'', ''amount''),
      (''date'', ''date''),
      (''total'', ''total'')]"

text \<open>
  \<^verbatim>\<open>fieldMapping\<close> is a plain object, so \<^verbatim>\<open>fieldMapping[key]\<close> also finds the members
  every object inherits. The key is lower-cased first, and the inherited members with a
  lower-case name are \<^verbatim>\<open>constructor\<close> and \<^verbatim>\<open>__proto__\<close>. For these the lookup gives a
  function or an object, not a string, and \<^verbatim>\<open>fieldName.includes(...)\<close> raises a TypeError.
\<close>

definition inheritedMembers :: "string list" where
  "inheritedMembers = [''constructor'', ''__proto__'']"

text \<open>
  The callback of \<^verbatim>\<open>entities.forEach\<close>: the updated \<^verbatim>\<open>extractedData\<close>, or the message
  of the TypeError.
\<close>

definition processEntity :: "(string \<times> string) list \<Rightarrow> Entity \<Rightarrow> string + (string \<times> string) list" where
  "processEntity ed entity =
     (case (entityType entity, mentionText entity) of
        (Some ty, Some mention) \<Rightarrow>
          if ty \<noteq> [] \<and> mention \<noteq> [] then
            (if map_of fieldMapping (toLowerCase ty) = None \<and> toLowerCase ty \<in> set inheritedMembers
             then Inl ''fieldName.includes is not a function''
             else
               (let fieldName = (case map_of fieldMapping (toLowerCase ty) of
                                   Some f \<Rightarrow> f | None \<Rightarrow> ty);
                    value0 = (case normalizedValueText entity of
                               Some n \<Rightarrow> if n \<noteq> [] then n else mention | None \<Rightarrow> mention);
                    value1 = (if value0 \<noteq> [] \<and> (includesStr fieldName ''wages''
                                   \<or> includesStr fieldName ''Tax'' \<or> includesStr fieldName ''amount'')
                             then filter (\<lambda>c. c \<noteq> CHR '','' \<and> c \<noteq> CHR ''$'') value0
                             else value0)
                in Inr (AList.update fieldName value1 ed)))
          else Inr ed
      | _ \<Rightarrow> Inr ed)"

text \<open>\<^verbatim>\<open>entities.forEach(...)\<close>: the loop ends at the first entity whose callback throws.\<close>

fun processEntities :: "(string \<times> string) list \<Rightarrow> Entity list \<Rightarrow> string + (string \<times> string) list" where
  "processEntities ed [] = Inr ed"
| "processEntities ed (entity # entities) =
     (case processEntity ed entity of
        Inl message \<Rightarrow> Inl message
      | Inr ed' \<Rightarrow> processEntities ed' entities)"

subsection \<open>Text mining: names\<close>

definition excludeWordsSection :: "string list" where
  "excludeWordsSection =
     [''Employee'', ''First'', ''Last'', ''Name'', ''Social'', ''Security'', ''Number'', ''Federal'',
      ''Income'', ''Tax'', ''Control'', ''Wages'', ''Tips'', ''Other'', ''Compensation'', ''Medicare'',
      ''Nonqualified'', ''Plans'', ''Statutory'', ''Retirement'', ''Third'', ''Party'', ''Sick'', ''Pay'']"

definition excludeWordsLines :: "string list" where
  "excludeWordsLines =
     [''Employee'', ''Employer'', ''Federal'', ''Social'', ''Security'', ''Medicare'', ''Control'',
      ''Wages'', ''Income'', ''State'', ''Local'', ''Dependent'', ''Benefits'', ''Other'',
      ''Compensation'', ''Nonqualified'', ''Plans'', ''Statutory'', ''Retirement'', ''Third'', ''Party'',
      ''Sick'', ''Pay'']"

definition businessIndicators :: "string list" where
  "businessIndicators =
     [''and Sons'', ''Company'', ''Corp'', ''Corporation'', ''LLC'', ''Inc'', ''Group'', ''Associates'',
      ''Partners'', ''Enterprises'', ''Solutions'', ''Services'', ''Industries'', ''Holdings'',
      ''Consulting'']"

text \<open>Strategy 1: employee name, by section and then by consecutive lines.\<close>

definition employeeNameStrategy :: "docRegex \<Rightarrow> string \<Rightarrow> string list \<Rightarrow> (string \<times> string) list \<Rightarrow> (string \<times> string) list" where
  "employeeNameStrategy rx text lines ed0 =
     (let employeeSection = (case firstMatch rx EmployeeSectionPattern text of
                               None \<Rightarrow> [] | Some m \<Rightarrow> grp m 0);
          ed1 = (if employeeSection \<noteq> [] then
                   (case find (\<lambda>m. grp m 1 \<notin> set excludeWordsSection \<and> grp m 2 \<notin> set excludeWordsSection)
                           (rx NamePattern employeeSection) of
                      None \<Rightarrow> ed0
                    | Some m \<Rightarrow> AList.update ''employeeName'' (grp m 1 @ '' '' @ grp m 2) ed0)
                 else ed0)
      in if \<not> truthy ed1 ''employeeName'' then
           (case find (\<lambda>(line1, line2). testRe rx ProperNameLine line1 \<and> testRe rx ProperNameLine line2
                          \<and> line1 \<notin> set excludeWordsLines \<and> line2 \<notin> set excludeWordsLines)
                   (zip (map trim lines) (map trim (tl lines))) of
              None \<Rightarrow> ed1
            | Some (line1, line2) \<Rightarrow> AList.update ''employeeName'' (line1 @ '' '' @ line2) ed1)
         else ed1)"

text \<open>Strategy 2: employer name, by section and then by business indicator.\<close>

definition employerNameStrategy :: "docRegex \<Rightarrow> string \<Rightarrow> (string \<times> string) list \<Rightarrow> (string \<times> string) list" where
  "employerNameStrategy rx text ed0 =
     (let employerSection = (case firstMatch rx EmployerSectionPattern text of
                               None \<Rightarrow> [] | Some m \<Rightarrow> grp m 0);
          ed1 = (if employerSection \<noteq> [] then
                   (case firstMatch rx CompanyPattern employerSection of
                      None \<Rightarrow> ed0
                    | Some m \<Rightarrow> if grp m 1 \<noteq> [] then AList.update ''employerName'' (trim (grp m 1)) ed0
                                else ed0)
                 else ed0)
      in if \<not> truthy ed1 ''employerName'' then
           (case firstSome
                   (\<lambda>indicator.
                      case firstMatch rx (IndicatorPattern indicator) text of
                        None \<Rightarrow> None
                      | Some m \<Rightarrow>
                          if grp m 1 \<noteq> [] \<and> \<not> testRe rx FormFieldWords (trim (grp m 1) @ '' '' @ indicator)
                          then Some (trim (grp m 1) @ '' '' @ indicator) else None)
                   businessIndicators of
              None \<Rightarrow> ed1
            | Some companyName \<Rightarrow> AList.update ''employerName'' companyName ed1)
         else ed1)"

subsection \<open>Text mining: amounts\<close>

text \<open>
  An amount read after a label: the first group of the first match, through
  \<^verbatim>\<open>parseFloat(m[1].replace(/,/g, ''))\<close>; \<open>None\<close> when there is no match, the group is
  empty or the number is NaN.
\<close>

definition contextAmount :: "docRegex \<Rightarrow> docPattern \<Rightarrow> string \<Rightarrow> rat option" where
  "contextAmount rx p text =
     (case firstMatch rx p text of
        None \<Rightarrow> None
      | Some m \<Rightarrow> if grp m 1 \<noteq> [] then parseFloat (removeCommas (grp m 1)) else None)"

text \<open>
  An amount read by position: the first of the (at most three) lines after the first line
  matching the label that is purely numeric and whose value is in range.
\<close>

definition positionAmount :: "docRegex \<Rightarrow> docPattern \<Rightarrow> string list \<Rightarrow> (rat \<Rightarrow> bool) \<Rightarrow> rat option" where
  "positionAmount rx label lines inRange =
     (case findIndex (testRe rx label) lines of
        None \<Rightarrow> None
      | Some idx \<Rightarrow>
          firstSome
            (\<lambda>l. if testRe rx NumericLine (trim l) then
                    (case parseFloat (removeCommas (trim l)) of
                       None \<Rightarrow> None
                     | Some amount' \<Rightarrow> if inRange amount' then Some amount' else None)
                  else None)
            (take 3 (drop (idx + 1) lines)))"

text \<open>\<^verbatim>\<open>amounts.map(amt => parseFloat(amt.replace(/,/g, '')))\<close>, without the NaN results.\<close>

definition tokenValues :: "string list \<Rightarrow> rat list" where
  "tokenValues tokens = List.map_filter (\<lambda>amt. parseFloat (removeCommas amt)) tokens"

text \<open>\<^verbatim>\<open>s.match(/^[0-9]{7,}$/)\<close>.\<close>

definition sevenOrMoreDigits :: "string \<Rightarrow> bool" where
  "sevenOrMoreDigits s = (7 \<le> length s \<and> list_all isDigit s)"

text \<open>
  The list \<^verbatim>\<open>numericAmounts\<close> of the wages fallback: the token values that pass the
  filter, sorted in descending order.
\<close>

definition numericAmounts :: "numberToString \<Rightarrow> string list \<Rightarrow> rat list" where
  "numericAmounts toStr tokens =
     rev (sort (filter (\<lambda>amt. amt \<ge> 1000 \<and> amt \<le> 500000
                             \<and> length (toStr amt) \<le> 8
                             \<and> \<not> sevenOrMoreDigits (toStr amt))
                  (tokenValues tokens)))"

text \<open>The list \<^verbatim>\<open>taxCandidates\<close> of the federal tax fallback, for the wage value.\<close>

definition taxCandidates :: "numberToString \<Rightarrow> rat \<Rightarrow> string list \<Rightarrow> rat list" where
  "taxCandidates toStr wageValue tokens =
     rev (sort (filter (\<lambda>amt. amt > 0 \<and> amt < wageValue \<and> amt \<ge> 100
                             \<and> amt \<le> wageValue * (5 / 10)
                             \<and> length (toStr amt) \<le> 8)
                  (tokenValues tokens)))"

text \<open>Strategy 3: wages, by context, by position, then the fallback over all tokens.\<close>

definition wagesPattern1 :: "docRegex \<Rightarrow> numberToString \<Rightarrow> string \<Rightarrow> (string \<times> string) list \<Rightarrow> (string \<times> string) list" where
  "wagesPattern1 rx toStr text ed =
     (case contextAmount rx WagePattern1 text of
        None \<Rightarrow> ed
      | Some amount' \<Rightarrow>
          if amount' \<ge> 1000 \<and> amount' \<le> 1000000 then AList.update ''wages'' (toStr amount') ed
          else ed)"

definition wagesPattern2 :: "docRegex \<Rightarrow> numberToString \<Rightarrow> string list \<Rightarrow> (string \<times> string) list \<Rightarrow> (string \<times> string) list" where
  "wagesPattern2 rx toStr lines ed =
     (if \<not> truthy ed ''wages'' then
        (case positionAmount rx WageLine lines (\<lambda>a. a \<ge> 1000 \<and> a \<le> 1000000) of
           None \<Rightarrow> ed
         | Some amount' \<Rightarrow> AList.update ''wages'' (toStr amount') ed)
      else ed)"

definition wagesPattern3 :: "docRegex \<Rightarrow> numberToString \<Rightarrow> string \<Rightarrow> (string \<times> string) list \<Rightarrow> (string \<times> string) list" where
  "wagesPattern3 rx toStr text ed =
     (if \<not> truthy ed ''wages'' then
        (case numericAmounts toStr (wholeMatches rx AmountTokens text) of
           [] \<Rightarrow> ed
         | wageAmount # _ \<Rightarrow> AList.update ''wages'' (toStr wageAmount) ed)
      else ed)"

definition wagesStrategy :: "docRegex \<Rightarrow> numberToString \<Rightarrow> string \<Rightarrow> string list \<Rightarrow> (string \<times> string) list \<Rightarrow> (string \<times> string) list" where
  "wagesStrategy rx toStr text lines ed =
     wagesPattern3 rx toStr text (wagesPattern2 rx toStr lines (wagesPattern1 rx toStr text ed))"

text \<open>Strategy 4: federal tax withheld, by context, by position, then relative to the wages.\<close>

definition federalTaxPattern1 :: "docRegex \<Rightarrow> numberToString \<Rightarrow> string \<Rightarrow> (string \<times> string) list \<Rightarrow> (string \<times> string) list" where
  "federalTaxPattern1 rx toStr text ed =
     (case contextAmount rx FedTaxPattern1 text of
        None \<Rightarrow> ed
      | Some amount' \<Rightarrow>
          if amount' \<ge> 0 \<and> amount' \<le> 100000
          then AList.update ''federalTaxWithheld'' (toStr amount') ed
          else ed)"

definition federalTaxPattern2 :: "docRegex \<Rightarrow> numberToString \<Rightarrow> string list \<Rightarrow> (string \<times> string) list \<Rightarrow> (string \<times> string) list" where
  "federalTaxPattern2 rx toStr lines ed =
     (if \<not> truthy ed ''federalTaxWithheld'' then
        (case positionAmount rx FedTaxLine lines (\<lambda>a. a \<ge> 0 \<and> a \<le> 100000) of
           None \<Rightarrow> ed
         | Some amount' \<Rightarrow> AList.update ''federalTaxWithheld'' (toStr amount') ed)
      else ed)"

definition federalTaxPattern3 :: "docRegex \<Rightarrow> numberToString \<Rightarrow> string \<Rightarrow> (string \<times> string) list \<Rightarrow> (string \<times> string) list" where
  "federalTaxPattern3 rx toStr text ed =
     (if \<not> truthy ed ''federalTaxWithheld'' \<and> truthy ed ''wages'' then
        (case parseFloat (the (map_of ed ''wages'')) of
           None \<Rightarrow> ed
         | Some wageValue \<Rightarrow>
             (case taxCandidates toStr wageValue (wholeMatches rx AmountTokens text) of
                [] \<Rightarrow> ed
              | federalTax # _ \<Rightarrow> AList.update ''federalTaxWithheld'' (toStr federalTax) ed))
      else ed)"

definition federalTaxStrategy :: "docRegex \<Rightarrow> numberToString \<Rightarrow> string \<Rightarrow> string list \<Rightarrow> (string \<times> string) list \<Rightarrow> (string \<times> string) list" where
  "federalTaxStrategy rx toStr text lines ed =
     federalTaxPattern3 rx toStr text
       (federalTaxPattern2 rx toStr lines (federalTaxPattern1 rx toStr text ed))"

text \<open>Strategies 5 and 6: the identifiers.\<close>

definition identifierStrategy :: "docRegex \<Rightarrow> docPattern \<Rightarrow> string \<Rightarrow> string \<Rightarrow> (string \<times> string) list \<Rightarrow> (string \<times> string) list" where
  "identifierStrategy rx p key text ed =
     (case firstMatch rx p text of
        None \<Rightarrow> ed
      | Some m \<Rightarrow> if grp m 1 \<noteq> [] then AList.update key (grp m 1) ed else ed)"

text \<open>Strategy 7: the other W-2 amounts, each by context with its upper limit.\<close>

definition additionalField :: "docRegex \<Rightarrow> numberToString \<Rightarrow> docPattern \<Rightarrow> string \<Rightarrow> rat \<Rightarrow> string \<Rightarrow> (string \<times> string) list \<Rightarrow> (string \<times> string) list" where
  "additionalField rx toStr p key limit text ed =
     (case contextAmount rx p text of
        None \<Rightarrow> ed
      | Some amount' \<Rightarrow>
          if amount' > 0 \<and> amount' \<le> limit then AList.update key (toStr amount') ed else ed)"

text \<open>The block run when the entity loop left \<^verbatim>\<open>extractedData\<close> empty and there is text.\<close>

definition textMining :: "docRegex \<Rightarrow> numberToString \<Rightarrow> string \<Rightarrow> (string \<times> string) list \<Rightarrow> (string \<times> string) list" where
  "textMining rx toStr text ed =
     (let lines = splitLines text in
      additionalField rx toStr MedicareTaxPattern ''medicareTaxWithheld'' 100000 text
        (additionalField rx toStr SsTaxPattern ''socialSecurityTaxWithheld'' 100000 text
          (additionalField rx toStr MedicareWagesPattern ''medicareWages'' 1000000 text
            (additionalField rx toStr SsWagesPattern ''socialSecurityWages'' 1000000 text
              (identifierStrategy rx SsnPattern ''employeeSSN'' text
                (identifierStrategy rx EinPattern ''employerEIN'' text
                  (federalTaxStrategy rx toStr text lines
                    (wagesStrategy rx toStr text lines
                      (employerNameStrategy rx text
                        (employeeNameStrategy rx text lines ed))))))))))"

subsection \<open>The function\<close>

text \<open>
  The call of the vendor with its retry loop: at most three attempts, the error of the
  third one is thrown. \<open>api n\<close> is the outcome of attempt \<open>n\<close>: the rejection message, or
  the \<^verbatim>\<open>document\<close> of the result (\<open>None\<close> when the result has none).
\<close>

function callWithRetry :: "(nat \<Rightarrow> string + DocResult option) \<Rightarrow> nat \<Rightarrow> string + DocResult option" where
  "callWithRetry api attempts =
     (if attempts < 3 then
        (case api (attempts + 1) of
           Inr result \<Rightarrow> Inr result
         | Inl message \<Rightarrow> if attempts + 1 = 3 then Inl message else callWithRetry api (attempts + 1))
      else Inl ''Cannot destructure property 'document' of 'result' as it is undefined.'')"
  by pat_completeness auto
termination
  by (relation "measure (\<lambda>(api, attempts). 3 - attempts)") auto

declare callWithRetry.simps [simp del]

text \<open>\<^verbatim>\<open>docResult?.text || ''\<close> and \<^verbatim>\<open>docResult?.entities || []\<close>.\<close>

definition resultText :: "DocResult option \<Rightarrow> string" where
  "resultText docResult =
     (case docResult of None \<Rightarrow> [] | Some d \<Rightarrow> (case docText d of None \<Rightarrow> [] | Some t \<Rightarrow> t))"

definition resultEntities :: "DocResult option \<Rightarrow> Entity list" where
  "resultEntities docResult =
     (case docResult of None \<Rightarrow> [] | Some d \<Rightarrow> (case docEntities d of None \<Rightarrow> [] | Some es \<Rightarrow> es))"

text \<open>
  \<^verbatim>\<open>docResult?.entities?.[0]?.confidence || 0.9\<close>: the confidence of the first entity
  when it is there and truthy, 0.9 otherwise.
\<close>

definition resultConfidence :: "DocResult option \<Rightarrow> rat" where
  "resultConfidence docResult =
     (case docResult of
        None \<Rightarrow> 9 / 10
      | Some d \<Rightarrow>
          (case docEntities d of
             None \<Rightarrow> 9 / 10
           | Some [] \<Rightarrow> 9 / 10
           | Some (e # _) \<Rightarrow>
               (case entityConfidence e of
                  None \<Rightarrow> 9 / 10
                | Some c \<Rightarrow> if c \<noteq> 0 then c else 9 / 10)))"

text \<open>
  \<^verbatim>\<open>processWithGoogleDocumentAI(document)\<close>. The file system and the vendor are
  parameters: whether the file exists, and the outcomes of the attempts. Every failure
  inside the function, the TypeError of the entity loop included, is rethrown with the
  prefix of its \<^verbatim>\<open>catch\<close>. The request's MIME type reaches only the vendor call and is
  not modelled.
\<close>

definition processWithGoogleDocumentAI ::
    "docRegex \<Rightarrow> numberToString \<Rightarrow> bool \<Rightarrow> (nat \<Rightarrow> string + DocResult option) \<Rightarrow> Document
       \<Rightarrow> error + ProcessedDocument" where
  "processWithGoogleDocumentAI rx toStr fileExists api document =
     (if \<not> fileExists then
        Inl (Error (''Google Document AI processing failed: File not found: '' @ documentFilePath document))
      else
        (case callWithRetry api 0 of
           Inl message \<Rightarrow> Inl (Error (''Google Document AI processing failed: '' @ message))
         | Inr docResult \<Rightarrow>
             (case processEntities [] (resultEntities docResult) of
                Inl message \<Rightarrow> Inl (Error (''Google Document AI processing failed: '' @ message))
              | Inr extractedData0 \<Rightarrow>
                  Inr \<lparr> documentType = documentDocumentType document,
                        ocrText = resultText docResult,
                        extractedData =
                          (if extractedData0 = [] \<and> resultText docResult \<noteq> []
                           then textMining rx toStr (resultText docResult) extractedData0
                           else extractedData0),
                        confidence = resultConfidence docResult,
                        processingMethod = ''google_document_ai'' \<rparr>)))"

subsection \<open>The selections of the specification, for comparison\<close>







section \<open>Properties of the calculation engine\<close>

lemma taxableIncome_calc:
  "taxableIncome (calculateTaxReturn ti wh fs) = max 0 (ti - standardDeductions fs)"
  by (simp add: calculateTaxReturn_def Let_def)

lemma taxLiability_calc:
  "taxLiability (calculateTaxReturn ti wh fs) = bracketTax fs (max 0 (ti - standardDeductions fs))"
  by (simp add: calculateTaxReturn_def Let_def)

lemma refundAmount_calc:
  "refundAmount (calculateTaxReturn ti wh fs) =
     max 0 (wh - taxLiability (calculateTaxReturn ti wh fs))"
  by (simp add: calculateTaxReturn_def Let_def max_def)

lemma amountOwed_calc:
  "amountOwed (calculateTaxReturn ti wh fs) =
     max 0 (taxLiability (calculateTaxReturn ti wh fs) - wh)"
  by (simp add: calculateTaxReturn_def Let_def max_def)

lemma bracketTax_schedule: "bracketTax SINGLE ti = scheduleTax singleSchedule2024 ti"
  by (simp add: bracketTax_def singleSchedule2024_def)

text \<open>
  Claim C1. For a SINGLE filer and every total income, \<open>calculateTaxReturn\<close> returns the
  taxable income \<open>max 0 (totalIncome - 14600)\<close> and, as liability, the progressive-bracket
  formula \<open>base + (taxableIncome - lowerBound) * rate\<close> of the 2024 schedule (boundaries
  11600 / 47150 / 100525 / 191950 / 243725 / 609350, the listed base taxes and rates)
  at that taxable income; for total income 60000 the taxable income is 45400 and the
  liability is 1160 + (45400 - 11600) * 0.12 = 5216.
\<close>

theorem C1_single_bracket_formula:
  "taxableIncome (calculateTaxReturn ti wh SINGLE) = max 0 (ti - 14600)
   \<and> taxLiability (calculateTaxReturn ti wh SINGLE) =
       scheduleTax singleSchedule2024 (max 0 (ti - 14600))
   \<and> taxLiability (calculateTaxReturn ti wh SINGLE) =
       scheduleTax singleSchedule2024 (taxableIncome (calculateTaxReturn ti wh SINGLE))
   \<and> taxableIncome (calculateTaxReturn 60000 wh SINGLE) = 45400
   \<and> taxLiability (calculateTaxReturn 60000 wh SINGLE) = 1160 + (45400 - 11600) * (12 / 100)
   \<and> taxLiability (calculateTaxReturn 60000 wh SINGLE) = 5216"
proof -
  have t: "taxableIncome (calculateTaxReturn ti wh SINGLE) = max 0 (ti - 14600)"
    by (simp add: taxableIncome_calc)
  have a: "taxLiability (calculateTaxReturn ti wh SINGLE) =
     scheduleTax singleSchedule2024 (max 0 (ti - 14600))"
    by (simp only: taxLiability_calc bracketTax_schedule standardDeductions.simps)
  have b: "taxableIncome (calculateTaxReturn 60000 wh SINGLE) = 45400"
    by (simp add: taxableIncome_calc)
  have c: "taxLiability (calculateTaxReturn 60000 wh SINGLE) = 5216"
    by (simp add: taxLiability_calc bracketTax_def)
  from t a b c show ?thesis by simp
qed

lemma standardDeductions_pos: "0 < standardDeductions fs"
  by (cases fs) simp_all

lemma bracketTax_zero: "bracketTax fs 0 = 0"
  by (simp add: bracketTax_def)

lemma bracketTax_other: "fs \<noteq> SINGLE \<Longrightarrow> bracketTax fs ti = 0"
  by (simp add: bracketTax_def)

lemma foldl_plus_sum_list: "foldl (\<lambda>sum amount. sum + amount) (a::rat) xs = a + sum_list xs"
  by (induction xs arbitrary: a) simp_all

text \<open>
  Claim C2 fails as stated: \<open>calculateTaxReturn\<close> has no itemized-deduction parameter.
  A single filer with income 60000 and an itemized deduction of 20000 would have taxable
  income 40000 under the contract; the function returns 45400.
\<close>

theorem C2_itemized_counterexample:
  "taxableIncome (calculateTaxReturn 60000 0 SINGLE) \<noteq> max 0 (60000 - specDeduction SINGLE (Some 20000))"
  by (simp add: taxableIncome_calc specDeduction_def)

text \<open>
  Claim C2, amended. \<open>calculateTaxReturn\<close> subtracts the standard deduction of the filing
  status (14600 for SINGLE and MARRIED_FILING_SEPARATELY, 29200 for MARRIED_FILING_JOINTLY,
  21900 for HEAD_OF_HOUSEHOLD) and returns \<open>taxableIncome = max 0 (totalIncome - standardDeduction)\<close>;
  this is the contract's result whenever the itemized deduction is absent or does not
  exceed the standard deduction. The rule \<open>max standardDeduction itemizedDeduction\<close> is
  applied by \<open>recalculateTaxReturn\<close>, where the itemized deduction is the total of the
  return's deduction entries.
\<close>

theorem C2_standard_deduction_applied:
  "taxableIncome (calculateTaxReturn ti wh fs) = max 0 (ti - standardDeductions fs)
   \<and> standardDeduction (calculateTaxReturn ti wh fs) = standardDeductions fs
   \<and> standardDeductions SINGLE = 14600 \<and> standardDeductions MARRIED_FILING_SEPARATELY = 14600
   \<and> standardDeductions MARRIED_FILING_JOINTLY = 29200 \<and> standardDeductions HEAD_OF_HOUSEHOLD = 21900
   \<and> taxableIncome (calculateTaxReturn ti wh fs) = max 0 (ti - specDeduction fs None)
   \<and> (d \<le> standardDeductions fs \<longrightarrow>
        taxableIncome (calculateTaxReturn ti wh fs) = max 0 (ti - specDeduction fs (Some d)))
   \<and> map_option upd_taxableIncome (recalculateTaxReturn incomes deductions (Some fs)) =
        Some (max 0 (sum_list incomes - max (standardDeductions fs) (sum_list deductions)))"
proof -
  have pos: "0 < standardDeductions fs" by (rule standardDeductions_pos)
  have a: "taxableIncome (calculateTaxReturn ti wh fs) = max 0 (ti - standardDeductions fs)"
    by (rule taxableIncome_calc)
  have b: "standardDeduction (calculateTaxReturn ti wh fs) = standardDeductions fs"
    by (simp add: calculateTaxReturn_def Let_def)
  have c: "specDeduction fs None = standardDeductions fs"
    using pos by (simp add: specDeduction_def max_def)
  have d: "d \<le> standardDeductions fs \<Longrightarrow> specDeduction fs (Some d) = standardDeductions fs"
    by (simp add: specDeduction_def max_def)
  have e: "map_option upd_taxableIncome (recalculateTaxReturn incomes deductions (Some fs)) =
        Some (max 0 (sum_list incomes - max (standardDeductions fs) (sum_list deductions)))"
    using pos by (simp add: recalculateTaxReturn_def Let_def foldl_plus_sum_list)
  show ?thesis using a b c d e by simp
qed

theorem C2_standard_deduction_applied_witness:
  "(14000::rat) \<le> standardDeductions SINGLE
   \<and> taxableIncome (calculateTaxReturn 60000 6000 SINGLE) = max 0 (60000 - specDeduction SINGLE (Some 14000))
   \<and> taxableIncome (calculateTaxReturn 60000 6000 SINGLE) = 45400"
  using C2_standard_deduction_applied [of 60000 6000 SINGLE 14000 "[]" "[]"] by simp

text \<open>
  Claim C3 fails as stated when payments equal the liability: with no income and nothing
  withheld both amounts are zero, so it is not the case that exactly one is non-zero.
\<close>

theorem C3_both_zero_counterexample:
  "\<not> exactlyOneNonZero (refundAmount (calculateTaxReturn 0 0 SINGLE))
                         (amountOwed (calculateTaxReturn 0 0 SINGLE))"
  by (simp add: exactlyOneNonZero_def refundAmount_calc amountOwed_calc taxLiability_calc bracketTax_zero)

text \<open>
  Claim C3, amended. For every input, \<open>refundAmount = max 0 (payments - liability)\<close> and
  \<open>amountOwed = max 0 (liability - payments)\<close> with payments the withheld tax; neither is
  negative and they are never both non-zero; exactly one of them is non-zero precisely
  when payments differ from the liability, and both are zero when payments equal it.
\<close>

theorem C3_refund_owed:
  "refundAmount (calculateTaxReturn ti wh fs) = max 0 (wh - taxLiability (calculateTaxReturn ti wh fs))
   \<and> amountOwed (calculateTaxReturn ti wh fs) = max 0 (taxLiability (calculateTaxReturn ti wh fs) - wh)
   \<and> 0 \<le> refundAmount (calculateTaxReturn ti wh fs)
   \<and> 0 \<le> amountOwed (calculateTaxReturn ti wh fs)
   \<and> \<not> (refundAmount (calculateTaxReturn ti wh fs) \<noteq> 0 \<and> amountOwed (calculateTaxReturn ti wh fs) \<noteq> 0)
   \<and> exactlyOneNonZero (refundAmount (calculateTaxReturn ti wh fs)) (amountOwed (calculateTaxReturn ti wh fs))
       = (wh \<noteq> taxLiability (calculateTaxReturn ti wh fs))"
  unfolding refundAmount_calc amountOwed_calc exactlyOneNonZero_def
  by (auto simp: max_def)

theorem C3_refund_owed_witness:
  "refundAmount (calculateTaxReturn 60000 6000 SINGLE) = 784
   \<and> amountOwed (calculateTaxReturn 60000 6000 SINGLE) = 0
   \<and> exactlyOneNonZero (refundAmount (calculateTaxReturn 60000 6000 SINGLE))
                        (amountOwed (calculateTaxReturn 60000 6000 SINGLE))"
  using C3_refund_owed [of 60000 6000 SINGLE]
  by (simp add: taxLiability_calc bracketTax_def exactlyOneNonZero_def)

text \<open>
  Claim C4 fails as stated for a negative withheld tax, which the function accepts
  without validation: for MARRIED_FILING_SEPARATELY with total income 50000 and withheld
  tax -100 the liability is 0, but the refund is 0, not the withheld tax, and 100 is owed.
\<close>

theorem C4_negative_withheld_counterexample:
  "taxLiability (calculateTaxReturn 50000 (- 100) MARRIED_FILING_SEPARATELY) = 0
   \<and> refundAmount (calculateTaxReturn 50000 (- 100) MARRIED_FILING_SEPARATELY) = 0
   \<and> refundAmount (calculateTaxReturn 50000 (- 100) MARRIED_FILING_SEPARATELY) \<noteq> - 100
   \<and> amountOwed (calculateTaxReturn 50000 (- 100) MARRIED_FILING_SEPARATELY) = 100"
  by (simp add: refundAmount_calc amountOwed_calc taxLiability_calc bracketTax_other)

text \<open>
  Claim C4, amended. For every total income (in particular every non-negative one) and
  every filing status other than SINGLE, \<open>calculateTaxReturn\<close> returns liability 0
  regardless of the taxable income, refund \<open>max 0 withheld\<close> and amount owed
  \<open>max 0 (- withheld)\<close>; so for a non-negative withheld tax the refund is the full
  withheld tax and nothing is owed.
\<close>

theorem C4_other_status_zero_liability:
  assumes "fs \<noteq> SINGLE"
  shows "taxLiability (calculateTaxReturn ti wh fs) = 0
         \<and> refundAmount (calculateTaxReturn ti wh fs) = max 0 wh
         \<and> amountOwed (calculateTaxReturn ti wh fs) = max 0 (- wh)
         \<and> (0 \<le> wh \<longrightarrow> refundAmount (calculateTaxReturn ti wh fs) = wh
                        \<and> amountOwed (calculateTaxReturn ti wh fs) = 0)"
  using assms by (simp add: refundAmount_calc amountOwed_calc taxLiability_calc bracketTax_other)

theorem C4_other_status_zero_liability_witness:
  "MARRIED_FILING_JOINTLY \<noteq> SINGLE \<and> (0::rat) \<le> 5000
   \<and> taxableIncome (calculateTaxReturn 100000 5000 MARRIED_FILING_JOINTLY) = 70800
   \<and> taxLiability (calculateTaxReturn 100000 5000 MARRIED_FILING_JOINTLY) = 0
   \<and> refundAmount (calculateTaxReturn 100000 5000 MARRIED_FILING_JOINTLY) = 5000
   \<and> amountOwed (calculateTaxReturn 100000 5000 MARRIED_FILING_JOINTLY) = 0"
  using C4_other_status_zero_liability [of MARRIED_FILING_JOINTLY 100000 5000]
  by (simp add: taxableIncome_calc)

text \<open>
  Claim C9 fails as stated: \<open>calculateTaxReturn\<close> has no validation and no error path. A
  negative total income is clamped by \<open>max 0\<close> and a complete numeric result is returned.
\<close>

theorem C9_negative_income_counterexample:
  "calculateTaxReturn (- 1000) 0 SINGLE =
     \<lparr> totalIncome = - 1000, adjustedGrossIncome = - 1000, standardDeduction = 14600,
       taxableIncome = 0, taxLiability = 0, totalCredits = 0, refundAmount = 0, amountOwed = 0 \<rparr>"
  by (simp add: calculateTaxReturn_def Let_def bracketTax_def)

text \<open>
  Claim C9, amended. \<open>calculateTaxReturn\<close> validates nothing and raises nothing: it returns
  a numeric result for every total income and every filing status its parameter type
  admits (the four known ones; an unknown status is excluded by the type). A negative
  total income is reported unchanged as total and adjusted gross income, and is clamped to
  taxable income 0 with liability 0.
\<close>

theorem C9_negative_income_clamped:
  assumes "ti < 0"
  shows "totalIncome (calculateTaxReturn ti wh fs) = ti
         \<and> adjustedGrossIncome (calculateTaxReturn ti wh fs) = ti
         \<and> taxableIncome (calculateTaxReturn ti wh fs) = 0
         \<and> taxLiability (calculateTaxReturn ti wh fs) = 0"
proof -
  have "0 < standardDeductions fs" by (rule standardDeductions_pos)
  with assms have m: "max 0 (ti - standardDeductions fs) = 0" by (simp add: max_def)
  have t: "totalIncome (calculateTaxReturn ti wh fs) = ti
         \<and> adjustedGrossIncome (calculateTaxReturn ti wh fs) = ti"
    by (simp add: calculateTaxReturn_def Let_def)
  show ?thesis using m t by (simp add: taxableIncome_calc taxLiability_calc bracketTax_zero)
qed

theorem C9_negative_income_clamped_witness:
  "(- 1000 :: rat) < 0
   \<and> totalIncome (calculateTaxReturn (- 1000) 250 HEAD_OF_HOUSEHOLD) = - 1000
   \<and> taxableIncome (calculateTaxReturn (- 1000) 250 HEAD_OF_HOUSEHOLD) = 0
   \<and> taxLiability (calculateTaxReturn (- 1000) 250 HEAD_OF_HOUSEHOLD) = 0"
  using C9_negative_income_clamped [of "- 1000" 250 HEAD_OF_HOUSEHOLD] by simp

section \<open>Properties of the line-item mapper\<close>

lemma withheldTax_pushEntry [simp]: "withheldTax (pushEntry ty label amt form st) = withheldTax st"
  by (simp add: pushEntry_def)

lemma withheldTax_pushIfPositive [simp]:
  "withheldTax (pushIfPositive ty label key form st) = withheldTax st"
  by (simp add: pushIfPositive_def split: option.splits)

lemma withheldTax_pushUnknown [simp]: "withheldTax (pushUnknown form st entry) = withheldTax st"
  by (simp add: pushUnknown_def)

lemma withheldTax_foldl_pushUnknown [simp]:
  "withheldTax (foldl (pushUnknown form) st xs) = withheldTax st"
  by (induction xs arbitrary: st) simp_all

lemma withheldTax_addWithheld:
  "withheldTax (addWithheld form st) =
     withheldTax st + (case amountOf form ''federalIncomeTaxWithheld'' of None \<Rightarrow> 0 | Some w \<Rightarrow> w)"
  by (simp add: addWithheld_def split: option.splits)

lemma withheldTax_mapForm:
  "withheldTax (mapForm st form) =
     withheldTax st + (case amountOf form ''federalIncomeTaxWithheld'' of None \<Rightarrow> 0 | Some w \<Rightarrow> w)"
proof -
  let ?st = "case taxYear form of None \<Rightarrow> st
             | Some y \<Rightarrow> if y \<noteq> 0 then st\<lparr>mappingTaxYear := y\<rparr> else st"
  have y: "withheldTax ?st = withheldTax st"
    by (simp split: option.splits)
  show ?thesis
    unfolding mapForm_def Let_def
    by (simp add: withheldTax_addWithheld y)
qed

lemma withheldSum_Cons:
  "withheldSum (form # forms) =
     (case amountOf form ''federalIncomeTaxWithheld'' of None \<Rightarrow> 0 | Some w \<Rightarrow> w) + withheldSum forms"
  by (simp add: withheldSum_def hasWithheld_def split: option.splits)

lemma withheldTax_foldl_mapForm:
  "withheldTax (foldl mapForm st forms) = withheldTax st + withheldSum forms"
proof (induction forms arbitrary: st)
  case Nil
  show ?case by (simp add: withheldSum_def)
next
  case (Cons form forms)
  show ?case
    by (simp add: Cons.IH withheldTax_mapForm withheldSum_Cons)
qed

lemma incomeEntries_pushEntry:
  "incomeEntries (pushEntry ty label amt form st) =
     incomeEntries st @
       [\<lparr> incomeType = ty, description = label @ fromPayer form, amount = amt,
          entryPayerName = payerName form, entryPayerTIN = payerTIN form \<rparr>]"
  by (simp add: pushEntry_def)

lemma incomeEntries_addWithheld [simp]: "incomeEntries (addWithheld form st) = incomeEntries st"
  by (simp add: addWithheld_def split: option.splits)

lemma incomeEntries_pushIfPositive_grows:
  "\<exists>es. incomeEntries (pushIfPositive ty label key form st) = incomeEntries st @ es"
  by (simp add: pushIfPositive_def incomeEntries_pushEntry split: option.splits)

lemma incomeEntries_foldl_pushUnknown:
  "incomeEntries (foldl (pushUnknown form) st xs) =
     incomeEntries st @
       map (\<lambda>entry. \<lparr> incomeType = OTHER_INCOME,
                       description = ''Unknown Form: '' @ fst entry @ fromPayer form,
                       amount = snd entry,
                       entryPayerName = payerName form, entryPayerTIN = payerTIN form \<rparr>)
         (filter (\<lambda>entry. snd entry > 0 \<and> fst entry \<noteq> ''federalIncomeTaxWithheld'') xs)"
  by (induction xs arbitrary: st) (simp_all add: pushUnknown_def incomeEntries_pushEntry)

lemma incomeEntries_mapForm_grows:
  "\<exists>es. incomeEntries (mapForm st form) = incomeEntries st @ es"
proof -
  let ?st = "case taxYear form of None \<Rightarrow> st
             | Some y \<Rightarrow> if y \<noteq> 0 then st\<lparr>mappingTaxYear := y\<rparr> else st"
  have y: "incomeEntries ?st = incomeEntries st"
    by (simp split: option.splits)
  have two: "\<exists>es. incomeEntries (pushIfPositive t1 l1 k1 form (pushIfPositive t2 l2 k2 form ?st))
                    = incomeEntries st @ es" for t1 l1 k1 t2 l2 k2
  proof -
    obtain es1 where "incomeEntries (pushIfPositive t2 l2 k2 form ?st) = incomeEntries ?st @ es1"
      using incomeEntries_pushIfPositive_grows by blast
    moreover obtain es2 where
      "incomeEntries (pushIfPositive t1 l1 k1 form (pushIfPositive t2 l2 k2 form ?st))
         = incomeEntries (pushIfPositive t2 l2 k2 form ?st) @ es2"
      using incomeEntries_pushIfPositive_grows by blast
    ultimately show ?thesis by (simp add: y)
  qed
  have one: "\<exists>es. incomeEntries (pushIfPositive t1 l1 k1 form ?st) = incomeEntries st @ es" for t1 l1 k1
    using incomeEntries_pushIfPositive_grows [of t1 l1 k1 form ?st] by (simp add: y)
  show ?thesis
    unfolding mapForm_def Let_def
    using one two
    by (simp add: incomeEntries_foldl_pushUnknown incomeEntries_pushEntry y)
qed

lemma incomeEntries_foldl_mapForm_grows:
  "\<exists>es. incomeEntries (foldl mapForm st forms) = incomeEntries st @ es"
proof (induction forms arbitrary: st)
  case Nil
  show ?case by simp
next
  case (Cons form forms)
  obtain es1 where a: "incomeEntries (mapForm st form) = incomeEntries st @ es1"
    using incomeEntries_mapForm_grows by blast
  obtain es2 where "incomeEntries (foldl mapForm (mapForm st form) forms)
                      = incomeEntries (mapForm st form) @ es2"
    using Cons.IH by blast
  with a show ?case by simp
qed

lemma incomeEntries_mapForm_unknown:
  assumes "formType form = ''UNKNOWN''"
  shows "incomeEntries (mapForm st form) =
     incomeEntries st @
       map (\<lambda>entry. \<lparr> incomeType = OTHER_INCOME,
                       description = ''Unknown Form: '' @ fst entry @ fromPayer form,
                       amount = snd entry,
                       entryPayerName = payerName form, entryPayerTIN = payerTIN form \<rparr>)
         (filter (\<lambda>entry. snd entry > 0 \<and> fst entry \<noteq> ''federalIncomeTaxWithheld'') (amounts form))"
proof -
  let ?st = "case taxYear form of None \<Rightarrow> st
             | Some y \<Rightarrow> if y \<noteq> 0 then st\<lparr>mappingTaxYear := y\<rparr> else st"
  have y: "incomeEntries ?st = incomeEntries st"
    by (simp split: option.splits)
  show ?thesis
    unfolding mapForm_def Let_def
    by (simp add: assms incomeEntries_foldl_pushUnknown y)
qed

lemma unknown_entry_in_foldl_mapForm:
  assumes "form \<in> set forms" and "formType form = ''UNKNOWN''"
    and "(k, v) \<in> set (amounts form)" and "0 < v" and "k \<noteq> ''federalIncomeTaxWithheld''"
  shows "\<lparr> incomeType = OTHER_INCOME, description = ''Unknown Form: '' @ k @ fromPayer form,
           amount = v, entryPayerName = payerName form, entryPayerTIN = payerTIN form \<rparr>
         \<in> set (incomeEntries (foldl mapForm st forms))"
  using assms(1)
proof (induction forms arbitrary: st)
  case Nil
  then show ?case by simp
next
  case (Cons f forms)
  show ?case
  proof (cases "f = form")
    case True
    let ?e = "\<lparr> incomeType = OTHER_INCOME, description = ''Unknown Form: '' @ k @ fromPayer form,
           amount = v, entryPayerName = payerName form, entryPayerTIN = payerTIN form \<rparr>"
    have "(k, v) \<in> set (filter (\<lambda>entry. snd entry > 0 \<and> fst entry \<noteq> ''federalIncomeTaxWithheld'')
                           (amounts form))"
      using assms(3,4,5) by simp
    then have "?e \<in> set (incomeEntries (mapForm st form))"
      unfolding incomeEntries_mapForm_unknown [OF assms(2)]
      by (force simp: image_iff)
    moreover obtain es where
      "incomeEntries (foldl mapForm (mapForm st form) forms) = incomeEntries (mapForm st form) @ es"
      using incomeEntries_foldl_mapForm_grows by blast
    ultimately show ?thesis using True by simp
  next
    case False
    with Cons.prems have "form \<in> set forms" by simp
    then show ?thesis using Cons.IH by simp
  qed
qed

text \<open>
  Claim C5. For every list of extracted forms the \<open>withheldTax\<close> returned by
  \<open>mapExtractedDataToIncomeEntries\<close> is the sum of the federal-income-tax-withheld amount
  over the forms that have the field, whatever their form types and line items are; a
  single 1099-NEC form with nonemployee compensation 5000 and federal income tax withheld
  500 yields exactly one line item, BUSINESS_INCOME of amount 5000, and withheld tax 500.
\<close>

theorem C5_withheld_tax_total:
  "withheldTax (mapExtractedDataToIncomeEntries currentYear forms) = withheldSum forms
   \<and> incomeEntries (mapExtractedDataToIncomeEntries currentYear
         [\<lparr> formType = ''FORM_1099_NEC'', taxYear = ty, payerName = pn, payerTIN = pt,
            recipientName = rn, recipientTIN = rt,
            amounts = [(''nonemployeeCompensation'', 5000), (''federalIncomeTaxWithheld'', 500)],
            rawText = raw \<rparr>])
       = [\<lparr> incomeType = BUSINESS_INCOME,
            description = ''1099-NEC: Nonemployee Compensation'' @ (case pn of None \<Rightarrow> [] | Some n \<Rightarrow> if n \<noteq> [] then '' from '' @ n else []),
            amount = 5000, entryPayerName = pn, entryPayerTIN = pt \<rparr>]
   \<and> withheldTax (mapExtractedDataToIncomeEntries currentYear
         [\<lparr> formType = ''FORM_1099_NEC'', taxYear = ty, payerName = pn, payerTIN = pt,
            recipientName = rn, recipientTIN = rt,
            amounts = [(''nonemployeeCompensation'', 5000), (''federalIncomeTaxWithheld'', 500)],
            rawText = raw \<rparr>]) = 500"
proof -
  let ?form = "\<lparr> formType = ''FORM_1099_NEC'', taxYear = ty, payerName = pn, payerTIN = pt,
            recipientName = rn, recipientTIN = rt,
            amounts = [(''nonemployeeCompensation'', 5000), (''federalIncomeTaxWithheld'', 500)],
            rawText = raw \<rparr>"
  have total: "withheldTax (mapExtractedDataToIncomeEntries currentYear fs) = withheldSum fs" for fs
    by (simp add: mapExtractedDataToIncomeEntries_def withheldTax_foldl_mapForm)
  have sum: "withheldSum [?form] = 500"
    by (simp add: withheldSum_def hasWithheld_def amountOf_def)
  have entries: "incomeEntries (mapExtractedDataToIncomeEntries currentYear [?form])
       = [\<lparr> incomeType = BUSINESS_INCOME,
            description = ''1099-NEC: Nonemployee Compensation'' @ (case pn of None \<Rightarrow> [] | Some n \<Rightarrow> if n \<noteq> [] then '' from '' @ n else []),
            amount = 5000, entryPayerName = pn, entryPayerTIN = pt \<rparr>]"
    by (simp add: mapExtractedDataToIncomeEntries_def mapForm_def Let_def pushIfPositive_def
        amountOf_def incomeEntries_pushEntry fromPayer_def split: option.splits)
  show ?thesis
    using total [of forms] total [of "[?form]"] sum entries by simp
qed

theorem C5_withheld_tax_total_witness:
  "withheldTax (mapExtractedDataToIncomeEntries 2025
     [\<lparr> formType = ''FORM_1099_INT'', taxYear = Some 2024, payerName = Some ''First Bank'', payerTIN = None,
        recipientName = None, recipientTIN = None,
        amounts = [(''federalIncomeTaxWithheld'', 30)], rawText = None \<rparr>,
      \<lparr> formType = ''UNKNOWN'', taxYear = None, payerName = None, payerTIN = None,
        recipientName = None, recipientTIN = None,
        amounts = [(''miscField'', 200), (''federalIncomeTaxWithheld'', 20)], rawText = None \<rparr>,
      \<lparr> formType = ''FORM_1099_R'', taxYear = None, payerName = None, payerTIN = None,
        recipientName = None, recipientTIN = None,
        amounts = [(''grossDistribution'', 1000)], rawText = None \<rparr>]) = 50"
  using C5_withheld_tax_total [of 2025
     "[\<lparr> formType = ''FORM_1099_INT'', taxYear = Some 2024, payerName = Some ''First Bank'', payerTIN = None,
        recipientName = None, recipientTIN = None,
        amounts = [(''federalIncomeTaxWithheld'', 30)], rawText = None \<rparr>,
      \<lparr> formType = ''UNKNOWN'', taxYear = None, payerName = None, payerTIN = None,
        recipientName = None, recipientTIN = None,
        amounts = [(''miscField'', 200), (''federalIncomeTaxWithheld'', 20)], rawText = None \<rparr>,
      \<lparr> formType = ''FORM_1099_R'', taxYear = None, payerName = None, payerTIN = None,
        recipientName = None, recipientTIN = None,
        amounts = [(''grossDistribution'', 1000)], rawText = None \<rparr>]"]
  by (simp add: withheldSum_def hasWithheld_def amountOf_def)

text \<open>
  Claim C6 at the input where the code departs from it: a 1099-R form whose taxable
  amount is present with value 0 and whose gross distribution is 1000, as
  \<open>parse1099R\<close> builds it from the text
  \<^verbatim>\<open>1099-R Gross distribution $1,000.00 Taxable amount $0.00\<close>. The operator
  \<^verbatim>\<open>||\<close> treats the 0 as missing, so the mapper takes the gross distribution and
  produces a RETIREMENT_DISTRIBUTIONS line item of 1000, where the claim has no retirement
  line item.
\<close>

theorem C6_zero_taxable_amount_takes_gross:
  "amounts (parse1099R
       (\<lambda>p t. if p = AmountAfter ''Gross distribution'' then Some ''1,000.00''
               else if p = AmountAfter ''Taxable amount'' then Some ''0.00'' else None)
       ''1099-R Gross distribution $1,000.00 Taxable amount $0.00'')
     = [(''grossDistribution'', 1000), (''taxableAmount'', 0)]
   \<and> incomeEntries (mapExtractedDataToIncomeEntries 2025
       [\<lparr> formType = ''FORM_1099_R'', taxYear = None, payerName = None, payerTIN = None,
          recipientName = None, recipientTIN = None,
          amounts = [(''grossDistribution'', 1000), (''taxableAmount'', 0)],
          rawText = Some ''1099-R Gross distribution $1,000.00 Taxable amount $0.00'' \<rparr>])
     = [\<lparr> incomeType = RETIREMENT_DISTRIBUTIONS, description = ''1099-R: Retirement Distribution'',
          amount = 1000, entryPayerName = None, entryPayerTIN = None \<rparr>]"
proof -
  have a: "amounts (parse1099R
       (\<lambda>p t. if p = AmountAfter ''Gross distribution'' then Some ''1,000.00''
               else if p = AmountAfter ''Taxable amount'' then Some ''0.00'' else None)
       ''1099-R Gross distribution $1,000.00 Taxable amount $0.00'')
     = [(''grossDistribution'', 1000), (''taxableAmount'', 0)]"
    by (simp add: parse1099R_def setAmount_def setTaxYear_def emptyForm_def parseFloat_def
        removeCommas_def isDigit_def digitsToNat_def digitVal_def)
  have b: "incomeEntries (mapExtractedDataToIncomeEntries 2025
       [\<lparr> formType = ''FORM_1099_R'', taxYear = None, payerName = None, payerTIN = None,
          recipientName = None, recipientTIN = None,
          amounts = [(''grossDistribution'', 1000), (''taxableAmount'', 0)],
          rawText = Some ''1099-R Gross distribution $1,000.00 Taxable amount $0.00'' \<rparr>])
     = [\<lparr> incomeType = RETIREMENT_DISTRIBUTIONS, description = ''1099-R: Retirement Distribution'',
          amount = 1000, entryPayerName = None, entryPayerTIN = None \<rparr>]"
    by (simp add: mapExtractedDataToIncomeEntries_def mapForm_def Let_def retirementAmount_def
        amountOf_def incomeEntries_pushEntry fromPayer_def)
  from a b show ?thesis by simp
qed

section \<open>Properties of the form classifier\<close>

lemma formType_setters:
  "formType (setAmount rx label key text data) = formType data"
  "formType (setTaxYear rx text data) = formType data"
  "formType (setPayerName rx text data) = formType data"
  "formType (setPayerTIN rx text data) = formType data"
  "formType (setRecipientName rx text data) = formType data"
  by (simp_all add: setAmount_def setTaxYear_def setPayerName_def setPayerTIN_def
      setRecipientName_def split: option.splits)

lemma parser_formTypes:
  "formType (parse1099NEC rx text) = ''FORM_1099_NEC''"
  "formType (parse1099INT rx text) = ''FORM_1099_INT''"
  "formType (parse1099DIV rx text) = ''FORM_1099_DIV''"
  "formType (parse1099MISC rx text) = ''FORM_1099_MISC''"
  "formType (parse1099R rx text) = ''FORM_1099_R''"
  by (simp_all add: parse1099NEC_def parse1099INT_def parse1099DIV_def parse1099MISC_def
      parse1099R_def formType_setters emptyForm_def)

lemma extract_is_first_match:
  assumes "acquireText libs filePath fileType = Inr text"
  shows "extractDataFromTaxForm rx libs filePath fileType = Inr (classifyFirstMatch rx text)"
  by (simp add: extractDataFromTaxForm_def assms classifyFirstMatch_def classifierTable_def
      emptyForm_def)

lemma no_keyword_unknown:
  assumes "\<not> list_ex (includesStr text) (concat (map fst (classifierTable rx)))"
  shows "classifyFirstMatch rx text = emptyForm ''UNKNOWN'' text"
  using assms by (simp add: classifyFirstMatch_def classifierTable_def)

text \<open>
  Claim C7. \<open>extractDataFromTaxForm\<close> classifies the acquired text by the keyword table
  in the order NEC, INT, DIV, MISC, R, and the first row with a keyword in the text selects
  the parser (and so the form type); when no keyword occurs the result has form type
  UNKNOWN (with no amounts). For a form of type UNKNOWN among the forms given to the
  mapper, every amount that is positive and is not the withheld tax appears in the result
  as an OTHER_INCOME line item of that amount.
\<close>

theorem C7_classifier_and_catch_all:
  "(acquireText libs filePath fileType = Inr text \<longrightarrow>
      extractDataFromTaxForm rx libs filePath fileType = Inr (classifyFirstMatch rx text))
   \<and> map (\<lambda>row. formType (snd row text)) (classifierTable rx) =
       [''FORM_1099_NEC'', ''FORM_1099_INT'', ''FORM_1099_DIV'', ''FORM_1099_MISC'', ''FORM_1099_R'']
   \<and> (acquireText libs filePath fileType = Inr text
        \<and> \<not> list_ex (includesStr text) (concat (map fst (classifierTable rx))) \<longrightarrow>
      extractDataFromTaxForm rx libs filePath fileType = Inr (emptyForm ''UNKNOWN'' text)
      \<and> formType (emptyForm ''UNKNOWN'' text) = ''UNKNOWN'')
   \<and> (form \<in> set forms \<and> formType form = ''UNKNOWN'' \<and> (k, v) \<in> set (amounts form)
        \<and> 0 < v \<and> k \<noteq> ''federalIncomeTaxWithheld'' \<longrightarrow>
      \<lparr> incomeType = OTHER_INCOME, description = ''Unknown Form: '' @ k @ fromPayer form,
        amount = v, entryPayerName = payerName form, entryPayerTIN = payerTIN form \<rparr>
      \<in> set (incomeEntries (mapExtractedDataToIncomeEntries currentYear forms)))"
proof -
  have a: "acquireText libs filePath fileType = Inr text \<Longrightarrow>
      extractDataFromTaxForm rx libs filePath fileType = Inr (classifyFirstMatch rx text)"
    by (rule extract_is_first_match)
  have b: "map (\<lambda>row. formType (snd row text)) (classifierTable rx) =
       [''FORM_1099_NEC'', ''FORM_1099_INT'', ''FORM_1099_DIV'', ''FORM_1099_MISC'', ''FORM_1099_R'']"
    by (simp add: classifierTable_def parser_formTypes)
  have c: "acquireText libs filePath fileType = Inr text \<Longrightarrow>
        \<not> list_ex (includesStr text) (concat (map fst (classifierTable rx))) \<Longrightarrow>
      extractDataFromTaxForm rx libs filePath fileType = Inr (emptyForm ''UNKNOWN'' text)"
    using extract_is_first_match [of libs filePath fileType "text" rx] no_keyword_unknown [of "text" rx]
    by simp
  have d: "formType (emptyForm ''UNKNOWN'' text) = ''UNKNOWN''"
    by (simp add: emptyForm_def)
  have e: "form \<in> set forms \<Longrightarrow> formType form = ''UNKNOWN'' \<Longrightarrow> (k, v) \<in> set (amounts form)
        \<Longrightarrow> 0 < v \<Longrightarrow> k \<noteq> ''federalIncomeTaxWithheld'' \<Longrightarrow>
      \<lparr> incomeType = OTHER_INCOME, description = ''Unknown Form: '' @ k @ fromPayer form,
        amount = v, entryPayerName = payerName form, entryPayerTIN = payerTIN form \<rparr>
      \<in> set (incomeEntries (mapExtractedDataToIncomeEntries currentYear forms))"
    unfolding mapExtractedDataToIncomeEntries_def
    by (rule unknown_entry_in_foldl_mapForm)
  show ?thesis
    using a b c d e by blast
qed

theorem C7_classifier_and_catch_all_witness:
  "extractDataFromTaxForm (\<lambda>p t. None)
      \<lparr> pdfParse = (\<lambda>path. Some ''W-2 Wage''), tesseractRecognize = (\<lambda>path. None) \<rparr>
      ''w2.pdf'' ''application/pdf''
     = Inr (emptyForm ''UNKNOWN'' ''W-2 Wage'')
   \<and> extractDataFromTaxForm (\<lambda>p t. None)
      \<lparr> pdfParse = (\<lambda>path. None), tesseractRecognize = (\<lambda>path. Some ''1099-DIV Interest income'') \<rparr>
      ''scan.png'' ''image/png''
     = Inr (emptyForm ''FORM_1099_INT'' ''1099-DIV Interest income'')
   \<and> \<lparr> incomeType = OTHER_INCOME, description = ''Unknown Form: miscField'', amount = 200,
        entryPayerName = None, entryPayerTIN = None \<rparr>
      \<in> set (incomeEntries (mapExtractedDataToIncomeEntries 2025
           [\<lparr> formType = ''UNKNOWN'', taxYear = None, payerName = None, payerTIN = None,
              recipientName = None, recipientTIN = None,
              amounts = [(''miscField'', 200), (''federalIncomeTaxWithheld'', 20)],
              rawText = None \<rparr>]))"
proof -
  let ?libs = "\<lparr> pdfParse = (\<lambda>path. Some ''W-2 Wage''), tesseractRecognize = (\<lambda>path. None) \<rparr>"
  let ?form = "\<lparr> formType = ''UNKNOWN'', taxYear = None, payerName = None, payerTIN = None,
              recipientName = None, recipientTIN = None,
              amounts = [(''miscField'', 200), (''federalIncomeTaxWithheld'', 20)],
              rawText = None \<rparr>"
  have acq: "acquireText ?libs ''w2.pdf'' ''application/pdf'' = Inr ''W-2 Wage''"
    by (simp add: acquireText_def extractTextFromPDF_def)
  have nokw: "\<not> list_ex (includesStr ''W-2 Wage'') (concat (map fst (classifierTable (\<lambda>p t. None))))"
    by (simp add: classifierTable_def)
  have mem: "?form \<in> set [?form] \<and> formType ?form = ''UNKNOWN''
      \<and> (''miscField'', 200) \<in> set (amounts ?form) \<and> (0::rat) < 200
      \<and> ''miscField'' \<noteq> ''federalIncomeTaxWithheld''"
    by simp
  have fp: "fromPayer ?form = []"
    by (simp add: fromPayer_def)
  note r = C7_classifier_and_catch_all [of ?libs "''w2.pdf''" "''application/pdf''" "''W-2 Wage''"
        "\<lambda>p t. None" ?form "[?form]" "''miscField''" 200 2025]
  from r acq nokw have x: "extractDataFromTaxForm (\<lambda>p t. None) ?libs ''w2.pdf'' ''application/pdf''
     = Inr (emptyForm ''UNKNOWN'' ''W-2 Wage'')"
    by blast
  from r mem have y: "\<lparr> incomeType = OTHER_INCOME,
        description = ''Unknown Form: '' @ ''miscField'' @ fromPayer ?form, amount = 200,
        entryPayerName = payerName ?form, entryPayerTIN = payerTIN ?form \<rparr>
      \<in> set (incomeEntries (mapExtractedDataToIncomeEntries 2025 [?form]))"
    by blast
  let ?libs2 = "\<lparr> pdfParse = (\<lambda>path. None),
                  tesseractRecognize = (\<lambda>path. Some ''1099-DIV Interest income'') \<rparr>"
  have acq2: "acquireText ?libs2 ''scan.png'' ''image/png'' = Inr ''1099-DIV Interest income''"
    by (simp add: acquireText_def extractTextFromImage_def)
  have first2: "classifyFirstMatch (\<lambda>p t. None) ''1099-DIV Interest income''
      = emptyForm ''FORM_1099_INT'' ''1099-DIV Interest income''"
    by (simp add: classifyFirstMatch_def classifierTable_def parse1099INT_def setAmount_def
        setTaxYear_def setPayerName_def setPayerTIN_def)
  note r2 = C7_classifier_and_catch_all [of ?libs2 "''scan.png''" "''image/png''"
        "''1099-DIV Interest income''" "\<lambda>p t. None" ?form "[?form]" "''miscField''" 200 2025]
  from r2 acq2 first2 have z: "extractDataFromTaxForm (\<lambda>p t. None) ?libs2 ''scan.png'' ''image/png''
     = Inr (emptyForm ''FORM_1099_INT'' ''1099-DIV Interest income'')"
    by simp
  from x y z fp show ?thesis by simp
qed

section \<open>Properties of the Document AI text mining\<close>

subsection \<open>Evaluating numbers and their strings\<close>





subsection \<open>The head of a descending sort\<close>





subsection \<open>Identifier tokens and the printed form of the values in range\<close>












subsection \<open>What the wages strategy can write\<close>












section \<open>Properties of the reported confidence\<close>







text \<open>
  An entity whose type names an inherited member makes the function fail: the TypeError
  of the entity loop is caught and rethrown.
\<close>

lemma process_inherited_member_throws:
  "processWithGoogleDocumentAI rx toStr True
     (\<lambda>n. Inr (Some \<lparr> docText = Some ''W-2'',
                        docEntities = Some
                          [\<lparr> entityType = Some ''constructor'', mentionText = Some ''Ann Lee'',
                             normalizedValueText = None, entityConfidence = Some (6 / 10) \<rparr>] \<rparr>))
     document
   = Inl (Error ''Google Document AI processing failed: fieldName.includes is not a function'')"
  by (simp add: processWithGoogleDocumentAI_def callWithRetry.simps [of _ 0] resultEntities_def
      processEntity_def fieldMapping_def toLowerCase_def inheritedMembers_def)




end
